theory Spec2Isabelle
  imports Complex_Main
begin

section \<open>JavaScript values of a request body\<close>

text \<open>
  The handlers of \<^verbatim>\<open>src/app.js\<close> read the fields of a JSON body and of the
  path. A field is one of the scalar JSON values, or \<open>JUndefined\<close> when the body
  does not have it. A number carries its value (every finite double is a
  rational); a string is a list of code units below 256. Arrays and objects
  are outside the model.
\<close>

datatype jsval = JUndefined | JNull | JBool bool | JNum rat | JStr string

text \<open>JavaScript's ToBoolean: what \<^verbatim>\<open>!x\<close> and \<^verbatim>\<open>x || y\<close> test.\<close>

fun truthy :: "jsval \<Rightarrow> bool" where
  "truthy JUndefined = False"
| "truthy JNull = False"
| "truthy (JBool b) = b"
| "truthy (JNum q) = (q \<noteq> 0)"
| "truthy (JStr s) = (s \<noteq> [])"

section \<open>The built-ins used by \<^verbatim>\<open>isValidTimeSlot\<close>\<close>

subsection \<open>\<^verbatim>\<open>String.prototype.split\<close> with a one-character separator\<close>

text \<open>
  \<^verbatim>\<open>s.split(':')\<close> cuts at every separator and always returns at least one
  piece: \<^verbatim>\<open>''.split(':')\<close> is \<^verbatim>\<open>['']\<close> and \<^verbatim>\<open>'a:'.split(':')\<close> is \<^verbatim>\<open>['a', '']\<close>.
\<close>

fun split :: "char \<Rightarrow> string \<Rightarrow> string list" where
  "split sep [] = [[]]"
| "split sep (c # cs) =
     (if c = sep then [] # split sep cs
      else (case split sep cs of
              [] \<Rightarrow> [[c]]
            | p # ps \<Rightarrow> (c # p) # ps))"

subsection \<open>\<^verbatim>\<open>Number\<close> applied to a string\<close>

text \<open>
  \<^verbatim>\<open>Number(s)\<close> is ECMAScript's StringToNumber: white space is trimmed at both
  ends, the empty rest is 0, a StrNumericLiteral has its value, and anything
  else is NaN. The result of a literal is kept as its exact mathematical value
  \<open>Num q\<close>; the rounding to a double is applied where the code compares the
  number (\<open>is_0\<close>, \<open>is_30\<close> below).
\<close>

datatype jsnum = NaN | Infinity bool | Num rat

definition is_ws :: "char \<Rightarrow> bool" where
  "is_ws c = (c \<in> set [CHR 0x09, CHR 0x0A, CHR 0x0B, CHR 0x0C, CHR 0x0D, CHR 0x20, CHR 0xA0])"

definition trim :: "string \<Rightarrow> string" where
  "trim s = rev (dropWhile is_ws (rev (dropWhile is_ws s)))"

definition is_hex_digit :: "char \<Rightarrow> bool" where
  "is_hex_digit c = (c \<in> set ''0123456789abcdefABCDEF'')"

definition hex_digit_val :: "char \<Rightarrow> nat" where
  "hex_digit_val c =
     (if c \<in> set ''abcdef'' then of_char c - 87
      else if c \<in> set ''ABCDEF'' then of_char c - 55
      else of_char c - 48)"

text \<open>The value of a non-empty run of digits in a base; \<open>None\<close> when a character is no digit of it.\<close>

definition digits :: "nat \<Rightarrow> string \<Rightarrow> nat option" where
  "digits base ds =
     (if ds \<noteq> [] \<and> list_all (\<lambda>c. is_hex_digit c \<and> hex_digit_val c < base) ds
      then Some (foldl (\<lambda>a c. a * base + hex_digit_val c) 0 ds)
      else None)"

text \<open>SignedInteger of an ExponentPart: DecimalDigits with an optional sign.\<close>

definition signed_integer :: "string \<Rightarrow> int option" where
  "signed_integer x =
     (case x of
        [] \<Rightarrow> None
      | c # ds \<Rightarrow>
          if c = CHR ''+'' then map_option int (digits 10 ds)
          else if c = CHR ''-'' then map_option (\<lambda>n. - int n) (digits 10 ds)
          else map_option int (digits 10 x))"

text \<open>
  The part of a decimal literal before its exponent:
  \<^verbatim>\<open>DecimalDigits\<close>, \<^verbatim>\<open>DecimalDigits . DecimalDigits?\<close> or \<^verbatim>\<open>. DecimalDigits\<close>.
\<close>

definition mantissa :: "string \<Rightarrow> rat option" where
  "mantissa m =
     (let ip = takeWhile (\<lambda>c. c \<noteq> CHR ''.'') m;
          fr = dropWhile (\<lambda>c. c \<noteq> CHR ''.'') m
      in if fr = [] then map_option of_nat (digits 10 ip)
         else
           (let fp = tl fr
            in if ip = [] then map_option (\<lambda>n. of_nat n / 10 ^ length fp) (digits 10 fp)
               else if fp = [] then map_option of_nat (digits 10 ip)
               else (case (digits 10 ip, digits 10 fp) of
                       (Some i, Some f) \<Rightarrow> Some (of_nat i + of_nat f / 10 ^ length fp)
                     | _ \<Rightarrow> None)))"

text \<open>StrUnsignedDecimalLiteral without \<^verbatim>\<open>Infinity\<close>: a mantissa and an optional exponent.\<close>

definition unsigned_decimal :: "string \<Rightarrow> rat option" where
  "unsigned_decimal u =
     (let m = takeWhile (\<lambda>c. c \<noteq> CHR ''e'' \<and> c \<noteq> CHR ''E'') u;
          r = dropWhile (\<lambda>c. c \<noteq> CHR ''e'' \<and> c \<noteq> CHR ''E'') u
      in case mantissa m of
           None \<Rightarrow> None
         | Some q \<Rightarrow>
             if r = [] then Some q
             else (case signed_integer (tl r) of
                     None \<Rightarrow> None
                   | Some e \<Rightarrow>
                       Some (if 0 \<le> e then q * 10 ^ nat e else q / 10 ^ nat (- e))))"

definition str_unsigned_decimal_literal :: "string \<Rightarrow> jsnum" where
  "str_unsigned_decimal_literal u =
     (if u = ''Infinity'' then Infinity True
      else (case unsigned_decimal u of None \<Rightarrow> NaN | Some q \<Rightarrow> Num q))"

definition negate :: "jsnum \<Rightarrow> jsnum" where
  "negate n = (case n of NaN \<Rightarrow> NaN | Infinity b \<Rightarrow> Infinity (\<not> b) | Num q \<Rightarrow> Num (- q))"

text \<open>StrDecimalLiteral: an optional sign before the unsigned literal.\<close>

definition str_decimal_literal :: "string \<Rightarrow> jsnum" where
  "str_decimal_literal t =
     (case t of
        [] \<Rightarrow> NaN
      | c # u \<Rightarrow>
          if c = CHR ''+'' then str_unsigned_decimal_literal u
          else if c = CHR ''-'' then negate (str_unsigned_decimal_literal u)
          else str_unsigned_decimal_literal t)"

text \<open>NonDecimalIntegerLiteral: \<^verbatim>\<open>0b\<close>, \<^verbatim>\<open>0o\<close>, \<^verbatim>\<open>0x\<close> (either case) and digits; no sign.\<close>

definition radix_of :: "char \<Rightarrow> nat option" where
  "radix_of c =
     (if c = CHR ''b'' \<or> c = CHR ''B'' then Some 2
      else if c = CHR ''o'' \<or> c = CHR ''O'' then Some 8
      else if c = CHR ''x'' \<or> c = CHR ''X'' then Some 16
      else None)"

definition str_numeric_literal :: "string \<Rightarrow> jsnum" where
  "str_numeric_literal t =
     (case t of
        z # x # ds \<Rightarrow>
          (case (if z = CHR ''0'' then radix_of x else None) of
             Some base \<Rightarrow> (case digits base ds of None \<Rightarrow> NaN | Some n \<Rightarrow> Num (of_nat n))
           | None \<Rightarrow> str_decimal_literal t)
      | _ \<Rightarrow> str_decimal_literal t)"

definition Number :: "string \<Rightarrow> jsnum" where
  "Number s = (let t = trim s in if t = [] then Num 0 else str_numeric_literal t)"

text \<open>
  \<^verbatim>\<open>n === 0\<close> and \<^verbatim>\<open>n === 30\<close> on the double that \<open>n\<close> rounds to (round to nearest,
  ties to even): a value rounds to (plus or minus) zero when it is at most half
  the least subnormal \<open>2^-1074\<close> in size, and to 30 when it is within half a unit
  in the last place, \<open>2^-48\<close>, of 30. NaN and the infinities equal neither.
\<close>

definition is_0 :: "jsnum \<Rightarrow> bool" where
  "is_0 n = (case n of Num q \<Rightarrow> \<bar>q\<bar> \<le> 1 / 2 ^ 1075 | _ \<Rightarrow> False)"

definition is_30 :: "jsnum \<Rightarrow> bool" where
  "is_30 n = (case n of Num q \<Rightarrow> \<bar>q - 30\<bar> \<le> 1 / 2 ^ 49 | _ \<Rightarrow> False)"

section \<open>\<^verbatim>\<open>isValidTimeSlot\<close>\<close>

text \<open>
  \<^verbatim>\<open>
  const isValidTimeSlot = (time) => {
    const [hours, minutes] = time.split(':').map(Number);
    return minutes === 0 || minutes === 30;
  };
  \<close>
  Only a string has a \<^verbatim>\<open>split\<close> method: on any other value the call throws a
  TypeError. \<open>minutes\<close> is the second piece, \<^verbatim>\<open>undefined\<close> when there is none.
\<close>

datatype js_error = TypeError

definition minutes_of :: "string \<Rightarrow> jsnum option" where
  "minutes_of time =
     (case map Number (split CHR '':'' time) of
        hours # minutes # rest \<Rightarrow> Some minutes
      | _ \<Rightarrow> None)"

fun isValidTimeSlot :: "jsval \<Rightarrow> js_error + bool" where
  "isValidTimeSlot (JStr time) =
     Inr (case minutes_of time of
            None \<Rightarrow> False
          | Some minutes \<Rightarrow> is_0 minutes \<or> is_30 minutes)"
| "isValidTimeSlot v = Inl TypeError"

section \<open>The appointment store\<close>

text \<open>
  Modelled from the spec: the \<^verbatim>\<open>Appointment\<close> table, whose schema is not among the
  source files. A row has the five columns the queries name and an
  \<open>appointment_id\<close> that the store generates on insertion (a counter,
  \<open>next_id\<close>). The columns \<open>patient_id\<close> and \<open>doctor_id\<close> hold integers and read a
  parameter as one (\<open>int_column\<close> below); the other columns hold the value the
  handler passed. The path parameter \<^verbatim>\<open>:appointment_id\<close> is taken as the id it
  denotes. Every query succeeds, except a scalar subquery that finds more than
  one row.
\<close>

record appointment =
  appointment_id :: nat
  patient_id :: jsval
  doctor_id :: jsval
  appointment_date :: jsval
  appointment_time :: jsval
  status :: jsval

record db =
  rows :: "appointment list"
  next_id :: nat

text \<open>
  SQL's \<^verbatim>\<open>=\<close> is never true of NULL. \<open>eq_column\<close> compares two values of one
  column (the doctor of a row with the doctor of another row), and a date or
  time column with its parameter: the types of these two columns are not
  among the source files, and they are taken to compare the values as passed.
\<close>

definition is_null :: "jsval \<Rightarrow> bool" where
  "is_null v = (v = JNull \<or> v = JUndefined)"

definition eq_column :: "jsval \<Rightarrow> jsval \<Rightarrow> bool" where
  "eq_column a b = (\<not> is_null a \<and> \<not> is_null b \<and> a = b)"

text \<open>
  An integer column and its parameter. The driver writes a number as its
  digits, a string as a quoted string, and \<^verbatim>\<open>true\<close> and \<^verbatim>\<open>false\<close> as the keywords
  that are 1 and 0; the store reads a string in a numeric context as the
  number it spells. So a parameter that is a string spelling a number with an
  integer value (an optional sign, digits, an optional fraction and exponent,
  white space around it allowed) is that integer, in a comparison and in an
  insert: \<^verbatim>\<open>doctor_id = '1'\<close> finds the rows of doctor 1. What the store makes of a
  number that is not an integer or of a string that is not a number (rounding,
  truncation, rejection) depends on its schema and mode, which are not among
  the source files: the model keeps such a value as passed.
\<close>

definition sql_space :: "char \<Rightarrow> bool" where
  "sql_space c = (c \<in> set [CHR 0x09, CHR 0x0A, CHR 0x0B, CHR 0x0C, CHR 0x0D, CHR 0x20])"

definition sql_strip :: "string \<Rightarrow> string" where
  "sql_strip s = rev (dropWhile sql_space (rev (dropWhile sql_space s)))"

fun int_column :: "jsval \<Rightarrow> jsval" where
  "int_column (JStr s) =
     (case str_decimal_literal (sql_strip s) of
        Num q \<Rightarrow> if of_int \<lfloor>q\<rfloor> = q then JNum q else JStr s
      | _ \<Rightarrow> JStr s)"
| "int_column (JBool b) = JNum (if b then 1 else 0)"
| "int_column v = v"

definition eq_int_column :: "jsval \<Rightarrow> jsval \<Rightarrow> bool" where
  "eq_int_column a p = eq_column a (int_column p)"

text \<open>
  \<^verbatim>\<open>
  INSERT INTO Appointment (patient_id, doctor_id, appointment_date, appointment_time, status)
  VALUES (?, ?, ?, ?, 'Scheduled')
  \<close>
\<close>

definition insertQuery :: "jsval \<Rightarrow> jsval \<Rightarrow> jsval \<Rightarrow> jsval \<Rightarrow> db \<Rightarrow> db" where
  "insertQuery pid did date time s =
     s\<lparr>rows := rows s @
            [\<lparr>appointment_id = next_id s, patient_id = int_column pid,
              doctor_id = int_column did,
              appointment_date = date, appointment_time = time,
              status = JStr ''Scheduled''\<rparr>],
       next_id := Suc (next_id s)\<rparr>"

text \<open>
  \<^verbatim>\<open>
  SELECT * FROM Appointment
  WHERE doctor_id = ? AND appointment_date = ? AND appointment_time = ?
  \<close>
\<close>

definition checkDoctorAvailabilityQuery :: "jsval \<Rightarrow> jsval \<Rightarrow> jsval \<Rightarrow> db \<Rightarrow> appointment list" where
  "checkDoctorAvailabilityQuery did date time s =
     filter (\<lambda>r. eq_int_column (doctor_id r) did \<and> eq_column (appointment_date r) date \<and>
                  eq_column (appointment_time r) time) (rows s)"

text \<open>
  The scalar subquery \<^verbatim>\<open>SELECT doctor_id FROM Appointment WHERE appointment_id = ?\<close>:
  NULL when no row has the id, an error of the store when several have.
\<close>

datatype db_error = SubqueryReturnsMoreThanOneRow

definition doctor_of_appointment :: "nat \<Rightarrow> db \<Rightarrow> db_error + jsval" where
  "doctor_of_appointment appointmentId s =
     (case filter (\<lambda>r. appointment_id r = appointmentId) (rows s) of
        [] \<Rightarrow> Inr JNull
      | [r] \<Rightarrow> Inr (doctor_id r)
      | _ \<Rightarrow> Inl SubqueryReturnsMoreThanOneRow)"

text \<open>
  \<^verbatim>\<open>
  SELECT * FROM Appointment
  WHERE doctor_id = (SELECT doctor_id FROM Appointment WHERE appointment_id = ?)
  AND appointment_date = ? AND appointment_time = ? AND appointment_id != ?
  \<close>
\<close>

definition checkAvailabilityQuery :: "nat \<Rightarrow> jsval \<Rightarrow> jsval \<Rightarrow> db \<Rightarrow> db_error + appointment list" where
  "checkAvailabilityQuery appointmentId date time s =
     (case doctor_of_appointment appointmentId s of
        Inl err \<Rightarrow> Inl err
      | Inr did \<Rightarrow>
          Inr (filter (\<lambda>r. eq_column (doctor_id r) did \<and> eq_column (appointment_date r) date \<and>
                           eq_column (appointment_time r) time \<and>
                           appointment_id r \<noteq> appointmentId) (rows s)))"

text \<open>
  \<^verbatim>\<open>
  UPDATE Appointment SET appointment_date = ?, appointment_time = ?, status = ?
  WHERE appointment_id = ?
  \<close>
  with the number of rows the \<^verbatim>\<open>WHERE\<close> matched (the driver's \<^verbatim>\<open>affectedRows\<close>).
\<close>

definition updateQuery :: "jsval \<Rightarrow> jsval \<Rightarrow> jsval \<Rightarrow> nat \<Rightarrow> db \<Rightarrow> nat \<times> db" where
  "updateQuery date time st appointmentId s =
     (length (filter (\<lambda>r. appointment_id r = appointmentId) (rows s)),
      s\<lparr>rows := map (\<lambda>r. if appointment_id r = appointmentId
                           then r\<lparr>appointment_date := date, appointment_time := time,
                                  status := st\<rparr>
                           else r) (rows s)\<rparr>)"

text \<open>\<^verbatim>\<open>DELETE FROM Appointment WHERE appointment_id = ?\<close>, with \<^verbatim>\<open>affectedRows\<close>.\<close>

definition deleteQuery :: "nat \<Rightarrow> db \<Rightarrow> nat \<times> db" where
  "deleteQuery appointmentId s =
     (length (filter (\<lambda>r. appointment_id r = appointmentId) (rows s)),
      s\<lparr>rows := filter (\<lambda>r. appointment_id r \<noteq> appointmentId) (rows s)\<rparr>)"

text \<open>
  \<^verbatim>\<open>
  SELECT * FROM Appointment
  WHERE patient_id = ? AND doctor_id = ? AND appointment_date = ? AND appointment_time = ?
  \<close>
\<close>

definition checkQuery :: "jsval \<Rightarrow> jsval \<Rightarrow> jsval \<Rightarrow> jsval \<Rightarrow> db \<Rightarrow> appointment list" where
  "checkQuery pid did date time s =
     filter (\<lambda>r. eq_int_column (patient_id r) pid \<and> eq_int_column (doctor_id r) did \<and>
                  eq_column (appointment_date r) date \<and> eq_column (appointment_time r) time) (rows s)"

section \<open>The handlers of \<^verbatim>\<open>src/app.js\<close>\<close>

text \<open>
  A handler answers with a status and a JSON message, or lets an exception
  escape (which the framework answers with status 500), and leaves the store
  in a new state.
\<close>

datatype response = Reply nat string | Uncaught js_error

text \<open>\<^verbatim>\<open>app.post('/book-appointment')\<close>, lines 144 to 187.\<close>

definition book_appointment :: "jsval \<Rightarrow> jsval \<Rightarrow> jsval \<Rightarrow> jsval \<Rightarrow> db \<Rightarrow> response \<times> db" where
  "book_appointment pid did date time s =
     (if \<not> truthy pid \<or> \<not> truthy did \<or> \<not> truthy date \<or> \<not> truthy time
      then (Reply 400 ''All fields are required'', s)
      else (case isValidTimeSlot time of
              Inl e \<Rightarrow> (Uncaught e, s)
            | Inr ok \<Rightarrow>
                if \<not> ok
                then (Reply 400 ''Appointment time must be in 30-minute intervals (e.g., 10:00, 10:30)'', s)
                else if length (checkDoctorAvailabilityQuery did date time s) > 0
                then (Reply 400 ''Doctor is already booked at this time'', s)
                else (Reply 201 ''Appointment booked successfully!'',
                      insertQuery pid did date time s)))"

text \<open>\<^verbatim>\<open>app.put('/appointments/:appointment_id')\<close>, lines 88 to 139.\<close>

definition update_appointment :: "nat \<Rightarrow> jsval \<Rightarrow> jsval \<Rightarrow> jsval \<Rightarrow> db \<Rightarrow> response \<times> db" where
  "update_appointment appointmentId date time st s =
     (if \<not> truthy date \<or> \<not> truthy time
      then (Reply 400 ''Appointment date and time are required'', s)
      else (case isValidTimeSlot time of
              Inl e \<Rightarrow> (Uncaught e, s)
            | Inr ok \<Rightarrow>
                if \<not> ok
                then (Reply 400 ''Appointment time must be in 30-minute intervals (e.g., 10:00, 10:30)'', s)
                else (case checkAvailabilityQuery appointmentId date time s of
                        Inl err \<Rightarrow> (Reply 500 ''Server error'', s)
                      | Inr results \<Rightarrow>
                          if length results > 0
                          then (Reply 400 ''Another appointment already exists at this time'', s)
                          else (case updateQuery date time
                                       (if truthy st then st else JStr ''Scheduled'')
                                       appointmentId s of
                                  (affectedRows, s') \<Rightarrow>
                                    if affectedRows = 0
                                    then (Reply 404 ''Appointment not found'', s')
                                    else (Reply 200 ''Appointment updated successfully'', s')))))"

text \<open>\<^verbatim>\<open>app.delete('/appointments/:appointment_id')\<close>, lines 190 to 209.\<close>

definition delete_appointment :: "nat \<Rightarrow> db \<Rightarrow> response \<times> db" where
  "delete_appointment appointmentId s =
     (case deleteQuery appointmentId s of
        (affectedRows, s') \<Rightarrow>
          if affectedRows = 0
          then (Reply 404 ''Appointment not found'', s')
          else (Reply 200 ''Appointment deleted successfully'', s'))"

section \<open>The seed routine\<close>

definition appt :: "rat \<Rightarrow> rat \<Rightarrow> string \<Rightarrow> string \<Rightarrow> jsval \<times> jsval \<times> jsval \<times> jsval" where
  "appt p d date time = (JNum p, JNum d, JStr date, JStr time)"

text \<open>The list of \<^verbatim>\<open>insertDefaultAppointments\<close> in \<^verbatim>\<open>src/app.js\<close>, lines 213 to 267.\<close>

definition appointments :: "(jsval \<times> jsval \<times> jsval \<times> jsval) list" where
  "appointments =
    [appt 1 1 ''2025-04-11'' ''09:00'',
     appt 2 1 ''2025-04-11'' ''09:30'',
     appt 3 1 ''2025-04-11'' ''10:00'',
     appt 4 1 ''2025-04-11'' ''10:30'',
     appt 5 1 ''2025-04-11'' ''11:00'',

     appt 6 2 ''2025-04-11'' ''09:00'',
     appt 7 2 ''2025-04-11'' ''09:30'',
     appt 8 2 ''2025-04-11'' ''10:00'',
     appt 9 2 ''2025-04-11'' ''10:30'',
     appt 10 2 ''2025-04-11'' ''11:00'',

     appt 1 3 ''2025-04-12'' ''09:00'',
     appt 2 3 ''2025-04-12'' ''09:30'',
     appt 3 3 ''2025-04-12'' ''10:00'',
     appt 4 3 ''2025-04-12'' ''10:30'',
     appt 5 3 ''2025-04-12'' ''11:00'',

     appt 6 4 ''2025-04-13'' ''09:00'',
     appt 7 4 ''2025-04-13'' ''09:30'',
     appt 8 4 ''2025-04-13'' ''10:00'',
     appt 9 4 ''2025-04-13'' ''10:30'',
     appt 10 4 ''2025-04-13'' ''11:00'',

     appt 1 5 ''2025-04-14'' ''09:00'',
     appt 2 5 ''2025-04-14'' ''09:30'',
     appt 3 5 ''2025-04-14'' ''10:00'',
     appt 4 5 ''2025-04-14'' ''10:30'',
     appt 5 5 ''2025-04-14'' ''11:00'',

     appt 6 1 ''2025-04-15'' ''09:00'',
     appt 7 1 ''2025-04-15'' ''09:30'',
     appt 8 1 ''2025-04-15'' ''10:00'',
     appt 9 1 ''2025-04-15'' ''10:30'',
     appt 10 1 ''2025-04-15'' ''11:00'',

     appt 1 2 ''2025-04-16'' ''09:00'',
     appt 2 2 ''2025-04-16'' ''09:30'',
     appt 3 2 ''2025-04-16'' ''10:00'',
     appt 4 2 ''2025-04-16'' ''10:30'',
     appt 5 2 ''2025-04-16'' ''11:00'',

     appt 6 3 ''2025-04-17'' ''09:00'',
     appt 7 3 ''2025-04-17'' ''09:30'',
     appt 8 3 ''2025-04-17'' ''10:00'',
     appt 9 3 ''2025-04-17'' ''10:30'',
     appt 10 3 ''2025-04-17'' ''11:00'',

     appt 1 4 ''2025-04-18'' ''09:00'',
     appt 2 4 ''2025-04-18'' ''09:30'',
     appt 3 4 ''2025-04-18'' ''10:00'',
     appt 4 4 ''2025-04-18'' ''10:30'',
     appt 5 4 ''2025-04-18'' ''11:00'']"

text \<open>
  \<^verbatim>\<open>appointments.forEach\<close> issues one \<^verbatim>\<open>checkQuery\<close> per tuple on the one
  connection, which runs its queries in the order they were issued; the
  \<^verbatim>\<open>insertQuery\<close> of a tuple is issued by the callback of its check, after
  every check has been issued. So all checks read the store as the routine
  found it, and the inserts follow in the order of the list.
\<close>

definition seed :: "(jsval \<times> jsval \<times> jsval \<times> jsval) list \<Rightarrow> db \<Rightarrow> db" where
  "seed appts s =
     foldl (\<lambda>s' (pid, did, date, time). insertQuery pid did date time s') s
       (filter (\<lambda>(pid, did, date, time). length (checkQuery pid did date time s) = 0) appts)"

definition insertDefaultAppointments :: "db \<Rightarrow> db" where
  "insertDefaultAppointments s = seed appointments s"

text \<open>
  The same routine when each tuple is checked and inserted before the next one
  is checked. For a list without repetitions it makes no difference
  (\<open>seed_in_turn_seed\<close>).
\<close>

fun seed_in_turn :: "(jsval \<times> jsval \<times> jsval \<times> jsval) list \<Rightarrow> db \<Rightarrow> db" where
  "seed_in_turn [] s = s"
| "seed_in_turn ((pid, did, date, time) # appts) s =
     seed_in_turn appts
       (if length (checkQuery pid did date time s) = 0 then insertQuery pid did date time s else s)"

section \<open>The variant \<^verbatim>\<open>src/unnamed/part_000\<close>\<close>

text \<open>
  The second file has the same booking route without the time-slot check
  (lines 76 to 113), no update and no delete route, and a seed list of five
  tuples (lines 117 to 123).
\<close>

definition book_appointment_part_000 :: "jsval \<Rightarrow> jsval \<Rightarrow> jsval \<Rightarrow> jsval \<Rightarrow> db \<Rightarrow> response \<times> db" where
  "book_appointment_part_000 pid did date time s =
     (if \<not> truthy pid \<or> \<not> truthy did \<or> \<not> truthy date \<or> \<not> truthy time
      then (Reply 400 ''All fields are required'', s)
      else if length (checkDoctorAvailabilityQuery did date time s) > 0
      then (Reply 400 ''Doctor is already booked at this time'', s)
      else (Reply 201 ''Appointment booked successfully!'',
            insertQuery pid did date time s))"

definition appointments_part_000 :: "(jsval \<times> jsval \<times> jsval \<times> jsval) list" where
  "appointments_part_000 =
    [appt 1 1 ''2025-04-11'' ''09:00'',
     appt 2 1 ''2025-04-11'' ''09:30'',
     appt 3 1 ''2025-04-11'' ''10:00'',
     appt 4 1 ''2025-04-11'' ''10:30'',
     appt 5 1 ''2025-04-11'' ''11:00'']"

definition insertDefaultAppointments_part_000 :: "db \<Rightarrow> db" where
  "insertDefaultAppointments_part_000 s = seed appointments_part_000 s"

text \<open>The store before anything was inserted.\<close>

definition empty_db :: db where
  "empty_db = \<lparr>rows = [], next_id = 1\<rparr>"

section \<open>Requests in sequence\<close>

text \<open>
  One request at a time: a booking, an update, a deletion, or a start of the
  process, which runs the seed routine on the store as it is.
\<close>

datatype request =
    Book jsval jsval jsval jsval
  | Update nat jsval jsval jsval
  | Delete nat
  | Start

fun handle :: "request \<Rightarrow> db \<Rightarrow> response option \<times> db" where
  "handle (Book pid did date time) s =
     (case book_appointment pid did date time s of (r, s') \<Rightarrow> (Some r, s'))"
| "handle (Update appointmentId date time st) s =
     (case update_appointment appointmentId date time st s of (r, s') \<Rightarrow> (Some r, s'))"
| "handle (Delete appointmentId) s =
     (case delete_appointment appointmentId s of (r, s') \<Rightarrow> (Some r, s'))"
| "handle Start s = (None, insertDefaultAppointments s)"

fun run :: "request list \<Rightarrow> db \<Rightarrow> db" where
  "run [] s = s"
| "run (q # qs) s = run qs (snd (handle q s))"

text \<open>The slot of a row, and the invariant of the data model: no slot is held twice.\<close>

definition slot :: "appointment \<Rightarrow> jsval \<times> jsval \<times> jsval" where
  "slot r = (doctor_id r, appointment_date r, appointment_time r)"

definition no_double_booking :: "db \<Rightarrow> bool" where
  "no_double_booking s = distinct (map slot (rows s))"

text \<open>
  What the handlers keep of a store: ids are distinct and below the counter,
  every row has a doctor, and no slot is held twice.
\<close>

definition well_formed :: "db \<Rightarrow> bool" where
  "well_formed s =
     (distinct (map appointment_id (rows s)) \<and>
      list_all (\<lambda>r. appointment_id r < next_id s \<and> \<not> is_null (doctor_id r)) (rows s) \<and>
      no_double_booking s)"

text \<open>
  The row an insert makes from an id and a tuple, whether a tuple has only
  values that are not NULL and that the store keeps as they are, and whether
  the store has a row with the four values of a tuple.
\<close>

fun scheduled_row :: "nat \<times> jsval \<times> jsval \<times> jsval \<times> jsval \<Rightarrow> appointment" where
  "scheduled_row (i, pid, did, date, time) =
     \<lparr>appointment_id = i, patient_id = pid, doctor_id = did,
      appointment_date = date, appointment_time = time, status = JStr ''Scheduled''\<rparr>"

fun no_nulls :: "jsval \<times> jsval \<times> jsval \<times> jsval \<Rightarrow> bool" where
  "no_nulls (pid, did, date, time) =
     (\<not> is_null pid \<and> \<not> is_null did \<and> \<not> is_null date \<and> \<not> is_null time \<and>
      int_column pid = pid \<and> int_column did = did)"

fun has_quadruple :: "db \<Rightarrow> jsval \<times> jsval \<times> jsval \<times> jsval \<Rightarrow> bool" where
  "has_quadruple s (pid, did, date, time) =
     list_ex (\<lambda>r. patient_id r = pid \<and> doctor_id r = did \<and>
                   appointment_date r = date \<and> appointment_time r = time) (rows s)"

text \<open>
  A store that a restart has seeded again: the first start seeds the empty
  store (ids 1 to 45), appointment 1 is deleted, another patient books its
  slot (id 46), and the process starts again.
\<close>

definition restarted_db :: db where
  "restarted_db =
     run [Start, Delete 1, Book (JNum 99) (JNum 1) (JStr ''2025-04-11'') (JStr ''09:00''), Start]
       empty_db"

section \<open>Facts about the model\<close>

subsection \<open>Values\<close>

lemma truthy_not_null: "truthy v \<Longrightarrow> \<not> is_null v"
  by (cases v) (simp_all add: is_null_def)

lemma valid_0900: "isValidTimeSlot (JStr ''09:00'') = Inr True"
  by code_simp

lemma valid_0930: "isValidTimeSlot (JStr ''09:30'') = Inr True"
  by code_simp

lemma valid_1000: "isValidTimeSlot (JStr ''10:00'') = Inr True"
  by code_simp

lemma invalid_0915: "isValidTimeSlot (JStr ''09:15'') = Inr False"
  by code_simp

subsection \<open>Splitting at the colon\<close>

lemma split_nonempty: "split sep s \<noteq> []"
  by (induction s) (auto split: list.splits)

lemma split_no_sep: "sep \<notin> set s \<Longrightarrow> split sep s = [s]"
  by (induction s) auto

lemma split_first: "sep \<notin> set h \<Longrightarrow> split sep (h @ sep # m) = h # split sep m"
  by (induction h) auto

lemma minutes_of_first:
  "CHR '':'' \<notin> set h \<Longrightarrow>
   minutes_of (h @ CHR '':'' # rest) = Some (Number (hd (split CHR '':'' rest)))"
  using split_nonempty [of "CHR '':''" rest]
  by (cases "split CHR '':'' rest") (simp_all add: minutes_of_def split_first)

subsection \<open>A string with a colon is no number\<close>

lemma in_dropWhile: "x \<in> set xs \<Longrightarrow> \<not> P x \<Longrightarrow> x \<in> set (dropWhile P xs)"
  by (induction xs) auto

lemma not_ws_colon: "\<not> is_ws CHR '':''"
  by (simp add: is_ws_def)

lemma colon_trim: "CHR '':'' \<in> set s \<Longrightarrow> CHR '':'' \<in> set (trim s)"
  unfolding trim_def set_rev
  by (intro in_dropWhile not_ws_colon) (simp_all add: in_dropWhile not_ws_colon)

lemma not_hex_colon: "\<not> is_hex_digit CHR '':''"
  by (simp add: is_hex_digit_def)

lemma colon_digits: "CHR '':'' \<in> set ds \<Longrightarrow> digits base ds = None"
  using not_hex_colon by (auto simp: digits_def list_all_iff)

lemma colon_signed_integer: "CHR '':'' \<in> set x \<Longrightarrow> signed_integer x = None"
  by (cases x) (auto simp: signed_integer_def colon_digits)

lemma colon_parts:
  "CHR '':'' \<in> set xs \<Longrightarrow> \<not> P CHR '':'' \<Longrightarrow>
   CHR '':'' \<in> set (takeWhile (\<lambda>c. \<not> P c) xs) \<or>
   (dropWhile (\<lambda>c. \<not> P c) xs \<noteq> [] \<and> CHR '':'' \<in> set (tl (dropWhile (\<lambda>c. \<not> P c) xs)))"
  by (induction xs) auto

lemma colon_mantissa:
  assumes "CHR '':'' \<in> set m"
  shows "mantissa m = None"
proof -
  let ?ip = "takeWhile (\<lambda>c. c \<noteq> CHR ''.'') m" and ?fr = "dropWhile (\<lambda>c. c \<noteq> CHR ''.'') m"
  from colon_parts [OF assms, of "\<lambda>c. c = CHR ''.''"]
  consider (ip) "CHR '':'' \<in> set ?ip" | (fp) "?fr \<noteq> []" "CHR '':'' \<in> set (tl ?fr)"
    by auto
  then show ?thesis
  proof cases
    case ip
    then have "digits 10 ?ip = None" "?ip \<noteq> []"
      by (auto simp: colon_digits)
    then show ?thesis
      by (simp add: mantissa_def Let_def)
  next
    case fp
    then have "digits 10 (tl ?fr) = None" "tl ?fr \<noteq> []"
      by (auto simp: colon_digits)
    then show ?thesis
      using fp(1) by (auto simp: mantissa_def Let_def split: option.splits)
  qed
qed

lemma colon_unsigned_decimal:
  assumes "CHR '':'' \<in> set u"
  shows "unsigned_decimal u = None"
proof -
  let ?m = "takeWhile (\<lambda>c. c \<noteq> CHR ''e'' \<and> c \<noteq> CHR ''E'') u"
  let ?r = "dropWhile (\<lambda>c. c \<noteq> CHR ''e'' \<and> c \<noteq> CHR ''E'') u"
  from colon_parts [OF assms, of "\<lambda>c. c = CHR ''e'' \<or> c = CHR ''E''"]
  consider (m) "CHR '':'' \<in> set ?m" | (r) "?r \<noteq> []" "CHR '':'' \<in> set (tl ?r)"
    by auto
  then show ?thesis
  proof cases
    case m
    then show ?thesis
      by (simp add: unsigned_decimal_def Let_def colon_mantissa)
  next
    case r
    then show ?thesis
      by (auto simp: unsigned_decimal_def Let_def colon_signed_integer split: option.splits)
  qed
qed

lemma colon_str_unsigned: "CHR '':'' \<in> set u \<Longrightarrow> str_unsigned_decimal_literal u = NaN"
  by (auto simp: str_unsigned_decimal_literal_def colon_unsigned_decimal)

lemma colon_str_decimal:
  assumes "CHR '':'' \<in> set t"
  shows "str_decimal_literal t = NaN"
proof (cases t)
  case Nil
  then show ?thesis by (simp add: str_decimal_literal_def)
next
  case (Cons c u)
  show ?thesis
  proof (cases "c = CHR ''+'' \<or> c = CHR ''-''")
    case True
    with assms Cons have "CHR '':'' \<in> set u" by auto
    then have "str_unsigned_decimal_literal u = NaN" by (rule colon_str_unsigned)
    with True Cons show ?thesis by (auto simp: str_decimal_literal_def negate_def)
  next
    case False
    with Cons colon_str_unsigned [OF assms] show ?thesis
      by (simp add: str_decimal_literal_def)
  qed
qed

lemma radix_of_Some: "radix_of x = Some b \<Longrightarrow> x \<noteq> CHR '':''"
  by (auto simp: radix_of_def)

lemma colon_str_numeric:
  assumes "CHR '':'' \<in> set t"
  shows "str_numeric_literal t = NaN"
proof (cases "\<exists>x ds b. t = CHR ''0'' # x # ds \<and> radix_of x = Some b")
  case True
  then obtain x ds b where t: "t = CHR ''0'' # x # ds" and b: "radix_of x = Some b"
    by blast
  from assms t radix_of_Some [OF b] have "CHR '':'' \<in> set ds" by auto
  then show ?thesis
    by (simp add: str_numeric_literal_def t b colon_digits)
next
  case False
  then have "str_numeric_literal t = str_decimal_literal t"
    by (auto simp: str_numeric_literal_def split: list.splits option.splits)
  then show ?thesis
    by (simp add: colon_str_decimal [OF assms])
qed

lemma colon_Number: "CHR '':'' \<in> set s \<Longrightarrow> Number s = NaN"
  using colon_trim [of s] by (auto simp: Number_def Let_def colon_str_numeric)

subsection \<open>Booking\<close>

lemma int_column_null: "is_null (int_column v) = is_null v"
  by (cases v) (auto simp: is_null_def split: jsnum.splits)

lemma int_column_JNum: "int_column (JNum q) = JNum q"
  by simp

lemma check_after_insert:
  "\<not> is_null did \<Longrightarrow> \<not> is_null date \<Longrightarrow> \<not> is_null time \<Longrightarrow>
   checkDoctorAvailabilityQuery did date time (insertQuery pid did date time s) \<noteq> []"
  by (simp add: checkDoctorAvailabilityQuery_def insertQuery_def eq_int_column_def eq_column_def
        int_column_null del: int_column.simps)

lemma book_appointment_valid:
  assumes "truthy pid" "truthy did" "truthy date" "truthy time"
      and "isValidTimeSlot time = Inr True"
  shows "book_appointment pid did date time s =
           (if checkDoctorAvailabilityQuery did date time s \<noteq> []
            then (Reply 400 ''Doctor is already booked at this time'', s)
            else (Reply 201 ''Appointment booked successfully!'', insertQuery pid did date time s))"
  using assms by (simp add: book_appointment_def)

lemma book_appointment_time_not_string:
  assumes "truthy pid" "truthy did" "truthy date" "truthy time"
      and "\<And>str. time \<noteq> JStr str"
  shows "book_appointment pid did date time s = (Uncaught TypeError, s)"
  using assms by (cases time) (auto simp: book_appointment_def)

subsection \<open>Updating and deleting\<close>

lemma filter_id_empty:
  "filter (\<lambda>r. appointment_id r = i) xs = [] \<Longrightarrow> filter (\<lambda>r. appointment_id r \<noteq> i) xs = xs"
  by (induction xs) (auto split: if_splits)

lemma filter_id_one:
  "distinct (map appointment_id xs) \<Longrightarrow> filter (\<lambda>r. appointment_id r = i) xs \<noteq> [] \<Longrightarrow>
   Suc (length (filter (\<lambda>r. appointment_id r \<noteq> i) xs)) = length xs"
proof (induction xs)
  case Nil
  then show ?case by simp
next
  case (Cons x xs)
  show ?case
  proof (cases "appointment_id x = i")
    case True
    from Cons.prems(1) have "appointment_id x \<notin> appointment_id ` set xs"
      by simp
    with True have "\<forall>r \<in> set xs. appointment_id r \<noteq> i"
      by (metis imageI)
    then have "filter (\<lambda>r. appointment_id r = i) xs = []"
      by (simp add: filter_empty_conv)
    with True show ?thesis
      by (simp add: filter_id_empty)
  next
    case False
    with Cons show ?thesis by simp
  qed
qed

lemma map_upd_none:
  "filter (\<lambda>r. appointment_id r = i) xs = [] \<Longrightarrow>
   map (\<lambda>r. if appointment_id r = i then f r else r) xs = xs"
  by (induction xs) (auto split: if_splits)

lemma update_not_found:
  assumes "truthy date" "truthy time" "isValidTimeSlot time = Inr True"
      and none: "filter (\<lambda>r. appointment_id r = i) (rows s) = []"
  shows "update_appointment i date time st s = (Reply 404 ''Appointment not found'', s)"
proof -
  have "checkAvailabilityQuery i date time s = Inr []"
    using none
    by (simp add: checkAvailabilityQuery_def doctor_of_appointment_def eq_column_def is_null_def)
  moreover have "updateQuery date time (if truthy st then st else JStr ''Scheduled'') i s = (0, s)"
    using none by (simp add: updateQuery_def map_upd_none)
  ultimately show ?thesis
    using assms by (simp add: update_appointment_def)
qed

lemma update_ok:
  assumes "truthy date" "truthy time" "isValidTimeSlot time = Inr True"
      and one: "filter (\<lambda>r. appointment_id r = i) (rows s) = [a]"
      and free: "filter (\<lambda>r. appointment_id r \<noteq> i \<and> doctor_id r = doctor_id a \<and>
                       appointment_date r = date \<and> appointment_time r = time) (rows s) = []"
  shows "update_appointment i date time st s =
              (Reply 200 ''Appointment updated successfully'',
               s\<lparr>rows := map (\<lambda>r. if appointment_id r = i
                                    then r\<lparr>appointment_date := date, appointment_time := time,
                                           status := (if truthy st then st else JStr ''Scheduled'')\<rparr>
                                    else r) (rows s)\<rparr>)"
proof -
  have "doctor_of_appointment i s = Inr (doctor_id a)"
    using one by (simp add: doctor_of_appointment_def)
  moreover have "filter (\<lambda>r. eq_column (doctor_id r) (doctor_id a) \<and> eq_column (appointment_date r) date \<and>
                           eq_column (appointment_time r) time \<and> appointment_id r \<noteq> i) (rows s) = []"
    using free unfolding filter_empty_conv by (auto simp: eq_column_def)
  ultimately have "checkAvailabilityQuery i date time s = Inr []"
    by (simp add: checkAvailabilityQuery_def)
  then show ?thesis
    using assms by (simp add: update_appointment_def updateQuery_def)
qed

lemma update_taken:
  assumes "truthy date" "truthy time" "isValidTimeSlot time = Inr True"
      and one: "filter (\<lambda>r. appointment_id r = i) (rows s) = [a]"
      and doc: "\<not> is_null (doctor_id a)"
      and other: "list_ex (\<lambda>b. appointment_id b \<noteq> i \<and> doctor_id b = doctor_id a \<and>
                        appointment_date b = date \<and> appointment_time b = time) (rows s)"
  shows "update_appointment i date time st s =
              (Reply 400 ''Another appointment already exists at this time'', s)"
proof -
  from other obtain b where b: "b \<in> set (rows s)" "appointment_id b \<noteq> i" "doctor_id b = doctor_id a"
        "appointment_date b = date" "appointment_time b = time"
    by (auto simp: list_ex_iff)
  have "eq_column (doctor_id b) (doctor_id a) \<and> eq_column (appointment_date b) date \<and>
        eq_column (appointment_time b) time"
    using b doc assms(1,2) by (simp add: eq_column_def truthy_not_null)
  with b have "filter (\<lambda>r. eq_column (doctor_id r) (doctor_id a) \<and> eq_column (appointment_date r) date \<and>
                         eq_column (appointment_time r) time \<and> appointment_id r \<noteq> i) (rows s) \<noteq> []"
    unfolding filter_empty_conv by blast
  moreover have "doctor_of_appointment i s = Inr (doctor_id a)"
    using one by (simp add: doctor_of_appointment_def)
  ultimately have "\<exists>x xs. checkAvailabilityQuery i date time s = Inr (x # xs)"
    by (simp add: checkAvailabilityQuery_def neq_Nil_conv)
  then show ?thesis
    using assms by (auto simp: update_appointment_def)
qed

subsection \<open>Seeding\<close>

lemma foldl_insertQuery:
  assumes "list_all no_nulls xs"
  shows "foldl (\<lambda>s' (pid, did, date, time). insertQuery pid did date time s') s xs =
     s\<lparr>rows := rows s @ map scheduled_row (enumerate (next_id s) xs),
       next_id := next_id s + length xs\<rparr>"
  using assms
proof (induction xs arbitrary: s)
  case Nil
  show ?case by simp
next
  case (Cons x xs)
  obtain pid did date time where x: "x = (pid, did, date, time)"
    by (cases x) auto
  from Cons.prems have plain: "int_column pid = pid" "int_column did = did" and rest: "list_all no_nulls xs"
    by (simp_all add: x)
  have "insertQuery pid did date time s =
          s\<lparr>rows := rows s @ [scheduled_row (next_id s, pid, did, date, time)],
            next_id := Suc (next_id s)\<rparr>"
    by (simp add: insertQuery_def plain del: int_column.simps)
  then show ?case
    by (simp add: Cons.IH [OF rest] x del: scheduled_row.simps)
qed

lemma checkQuery_empty_iff:
  assumes "no_nulls (pid, did, date, time)"
  shows "length (checkQuery pid did date time s) = 0 \<longleftrightarrow> \<not> has_quadruple s (pid, did, date, time)"
  using assms
  by (auto simp: checkQuery_def filter_empty_conv list_ex_iff eq_int_column_def eq_column_def
        simp del: int_column.simps)

lemma seed_filter:
  assumes "list_all no_nulls appts"
  shows "filter (\<lambda>(pid, did, date, time). length (checkQuery pid did date time s) = 0) appts =
         filter (\<lambda>a. \<not> has_quadruple s a) appts"
proof (rule filter_cong [OF refl])
  fix a assume "a \<in> set appts"
  with assms have n: "no_nulls a" by (simp add: list_all_iff)
  obtain pid did date time where a: "a = (pid, did, date, time)"
    by (cases a) auto
  show "(case a of (pid, did, date, time) \<Rightarrow> length (checkQuery pid did date time s) = 0) =
        (\<not> has_quadruple s a)"
    using checkQuery_empty_iff [of pid did date time s] n unfolding a by simp
qed

lemma seed_rows:
  assumes "list_all no_nulls appts"
  shows "seed appts s =
     s\<lparr>rows := rows s @ map scheduled_row
                          (enumerate (next_id s) (filter (\<lambda>a. \<not> has_quadruple s a) appts)),
       next_id := next_id s + length (filter (\<lambda>a. \<not> has_quadruple s a) appts)\<rparr>"
proof -
  have "list_all no_nulls (filter (\<lambda>a. \<not> has_quadruple s a) appts)"
    using assms by (simp add: list_all_iff)
  then show ?thesis
    unfolding seed_def seed_filter [OF assms] by (rule foldl_insertQuery)
qed

lemma has_quadruple_scheduled_row:
  assumes "a \<in> set xs"
  shows "has_quadruple (s\<lparr>rows := ys @ map scheduled_row (enumerate n xs), next_id := m\<rparr>) a"
proof -
  obtain pid did date time where a: "a = (pid, did, date, time)"
    by (cases a) auto
  from assms obtain k where k: "k < length xs" "xs ! k = a"
    by (auto simp: in_set_conv_nth)
  then have "(n + k, a) \<in> set (enumerate n xs)"
    by (auto simp: in_set_enumerate_eq)
  then have "scheduled_row (n + k, a) \<in> set (map scheduled_row (enumerate n xs))"
    unfolding set_map by (rule imageI)
  then show ?thesis
    unfolding a
    by (auto simp: list_ex_iff intro!: bexI [of _ "scheduled_row (n + k, pid, did, date, time)"])
qed

lemma has_quadruple_append:
  "has_quadruple s a \<Longrightarrow> has_quadruple (s\<lparr>rows := rows s @ ys, next_id := m\<rparr>) a"
  by (cases a) (auto simp: list_ex_iff)

lemma has_quadruple_seed:
  assumes "list_all no_nulls appts" and "a \<in> set appts"
  shows "has_quadruple (seed appts s) a"
proof (cases "has_quadruple s a")
  case True
  then show ?thesis
    by (simp only: seed_rows [OF assms(1)] has_quadruple_append)
next
  case False
  with assms(2) have "a \<in> set (filter (\<lambda>a. \<not> has_quadruple s a) appts)"
    by simp
  then show ?thesis
    by (simp only: seed_rows [OF assms(1)] has_quadruple_scheduled_row)
qed

lemma seed_idem:
  assumes "list_all no_nulls appts"
  shows "seed appts (seed appts s) = seed appts s"
proof -
  have "filter (\<lambda>a. \<not> has_quadruple (seed appts s) a) appts = []"
    using has_quadruple_seed [OF assms] by (simp add: filter_empty_conv)
  then show ?thesis
    by (subst seed_rows [OF assms]) simp
qed

lemma appointments_no_nulls: "list_all no_nulls appointments"
  by (simp add: appointments_def appt_def is_null_def)

lemma checkQuery_insertQuery_other:
  assumes "(pid', did', date', time') \<noteq> (pid, did, date, time)"
      and "no_nulls (pid', did', date', time')" "no_nulls (pid, did, date, time)"
  shows "checkQuery pid' did' date' time' (insertQuery pid did date time s) =
         checkQuery pid' did' date' time' s"
  using assms
  by (auto simp: checkQuery_def insertQuery_def eq_int_column_def eq_column_def
        simp del: int_column.simps)

lemma filter_missing_insertQuery:
  assumes "(pid, did, date, time) \<notin> set appts"
      and "list_all no_nulls appts" "no_nulls (pid, did, date, time)"
  shows "filter (\<lambda>(pid', did', date', time').
                    length (checkQuery pid' did' date' time' (insertQuery pid did date time s)) = 0) appts =
         filter (\<lambda>(pid', did', date', time'). length (checkQuery pid' did' date' time' s) = 0) appts"
proof (rule filter_cong [OF refl])
  fix a assume a: "a \<in> set appts"
  obtain pid' did' date' time' where eq: "a = (pid', did', date', time')"
    by (cases a) auto
  with a assms(1) have "(pid', did', date', time') \<noteq> (pid, did, date, time)"
    by auto
  moreover from a assms(2) have "no_nulls (pid', did', date', time')"
    by (simp add: list_all_iff eq [symmetric])
  ultimately have "checkQuery pid' did' date' time' (insertQuery pid did date time s) =
             checkQuery pid' did' date' time' s"
    using assms(3) by (rule checkQuery_insertQuery_other)
  then show "(case a of (pid', did', date', time') \<Rightarrow>
                length (checkQuery pid' did' date' time' (insertQuery pid did date time s)) = 0) =
             (case a of (pid', did', date', time') \<Rightarrow>
                length (checkQuery pid' did' date' time' s) = 0)"
    unfolding eq by (simp only: prod.case)
qed

lemma seed_in_turn_seed:
  assumes "distinct appts" and "list_all no_nulls appts"
  shows "seed_in_turn appts s = seed appts s"
  using assms
proof (induction appts arbitrary: s)
  case Nil
  show ?case by (simp add: seed_def)
next
  case (Cons a appts)
  obtain pid did date time where a: "a = (pid, did, date, time)"
    by (cases a) auto
  from Cons.prems have notin: "(pid, did, date, time) \<notin> set appts" and d: "distinct appts"
    and n: "no_nulls (pid, did, date, time)" and ns: "list_all no_nulls appts"
    by (simp_all add: a del: no_nulls.simps)
  show ?case
  proof (cases "length (checkQuery pid did date time s) = 0")
    case True
    then have "seed_in_turn (a # appts) s = seed appts (insertQuery pid did date time s)"
      by (simp add: a Cons.IH [OF d ns])
    also have "\<dots> = seed (a # appts) s"
      using True unfolding seed_def filter_missing_insertQuery [OF notin ns n] by (simp add: a)
    finally show ?thesis .
  next
    case False
    then have "seed_in_turn (a # appts) s = seed appts s"
      by (simp add: a Cons.IH [OF d ns])
    also have "\<dots> = seed (a # appts) s"
      using False by (simp add: seed_def a)
    finally show ?thesis .
  qed
qed

lemma distinct_appointments: "distinct appointments"
  by (simp add: appointments_def appt_def)

lemma distinct_appointments_part_000: "distinct appointments_part_000"
  by (simp add: appointments_part_000_def appt_def)

lemma appointments_part_000_no_nulls: "list_all no_nulls appointments_part_000"
  by (simp add: appointments_part_000_def appt_def is_null_def)

lemma insertDefaultAppointments_part_000_idempotent:
  "insertDefaultAppointments_part_000 (insertDefaultAppointments_part_000 s) =
   insertDefaultAppointments_part_000 s"
  unfolding insertDefaultAppointments_part_000_def
  by (rule seed_idem [OF appointments_part_000_no_nulls])

subsection \<open>A restart after a deletion and a booking\<close>

lemma appointments_Cons:
  "appointments = (JNum 1, JNum 1, JStr ''2025-04-11'', JStr ''09:00'') # tl appointments"
  by (simp add: appointments_def appt_def)

lemma before_restart:
  "run [Start, Delete 1, Book (JNum 99) (JNum 1) (JStr ''2025-04-11'') (JStr ''09:00'')] empty_db =
     \<lparr>rows = map scheduled_row (enumerate 2 (tl appointments)) @
              [scheduled_row (46, JNum 99, JNum 1, JStr ''2025-04-11'', JStr ''09:00'')],
      next_id = 47\<rparr>"
  by code_simp

lemma before_restart_missing:
  "\<not> has_quadruple
       \<lparr>rows = map scheduled_row (enumerate 2 (tl appointments)) @
                [scheduled_row (46, JNum 99, JNum 1, JStr ''2025-04-11'', JStr ''09:00'')],
        next_id = 47\<rparr>
       (JNum 1, JNum 1, JStr ''2025-04-11'', JStr ''09:00'')"
  by code_simp

lemma before_restart_present:
  assumes "a \<in> set (tl appointments)"
  shows "has_quadruple
       \<lparr>rows = map scheduled_row (enumerate 2 (tl appointments)) @
                [scheduled_row (46, JNum 99, JNum 1, JStr ''2025-04-11'', JStr ''09:00'')],
        next_id = 47\<rparr> a"
proof -
  have "has_quadruple (empty_db\<lparr>rows := [] @ map scheduled_row (enumerate 2 (tl appointments)),
                               next_id := 46\<rparr>) a"
    using assms by (rule has_quadruple_scheduled_row)
  then have "has_quadruple ((empty_db\<lparr>rows := [] @ map scheduled_row (enumerate 2 (tl appointments)),
                               next_id := 46\<rparr>)
      \<lparr>rows := rows (empty_db\<lparr>rows := [] @ map scheduled_row (enumerate 2 (tl appointments)),
                               next_id := 46\<rparr>) @
               [scheduled_row (46, JNum 99, JNum 1, JStr ''2025-04-11'', JStr ''09:00'')],
        next_id := 47\<rparr>) a"
    by (rule has_quadruple_append)
  then show ?thesis
    by (simp add: empty_db_def)
qed

lemma restarted_rows:
  "restarted_db =
     \<lparr>rows = map scheduled_row (enumerate 2 (tl appointments)) @
              [scheduled_row (46, JNum 99, JNum 1, JStr ''2025-04-11'', JStr ''09:00''),
               scheduled_row (47, JNum 1, JNum 1, JStr ''2025-04-11'', JStr ''09:00'')],
      next_id = 48\<rparr>"
proof -
  let ?s = "\<lparr>rows = map scheduled_row (enumerate 2 (tl appointments)) @
                [scheduled_row (46, JNum 99, JNum 1, JStr ''2025-04-11'', JStr ''09:00'')],
             next_id = 47\<rparr>"
  have "filter (\<lambda>a. \<not> has_quadruple ?s a) (tl appointments) = []"
    using before_restart_present by (simp add: filter_empty_conv)
  then have "filter (\<lambda>a. \<not> has_quadruple ?s a)
               ((JNum 1, JNum 1, JStr ''2025-04-11'', JStr ''09:00'') # tl appointments) =
             [(JNum 1, JNum 1, JStr ''2025-04-11'', JStr ''09:00'')]"
    using before_restart_missing by (simp only: filter.simps simp_thms if_True)
  then have m: "filter (\<lambda>a. \<not> has_quadruple ?s a) appointments =
             [(JNum 1, JNum 1, JStr ''2025-04-11'', JStr ''09:00'')]"
    using appointments_Cons by simp
  have "restarted_db = insertDefaultAppointments ?s"
    unfolding restarted_db_def
    using before_restart by (simp del: scheduled_row.simps)
  also have "\<dots> = ?s\<lparr>rows := rows ?s @ map scheduled_row
                          (enumerate (next_id ?s) (filter (\<lambda>a. \<not> has_quadruple ?s a) appointments)),
       next_id := next_id ?s + length (filter (\<lambda>a. \<not> has_quadruple ?s a) appointments)\<rparr>"
    unfolding insertDefaultAppointments_def by (rule seed_rows [OF appointments_no_nulls])
  also have "\<dots> = \<lparr>rows = map scheduled_row (enumerate 2 (tl appointments)) @
              [scheduled_row (46, JNum 99, JNum 1, JStr ''2025-04-11'', JStr ''09:00''),
               scheduled_row (47, JNum 1, JNum 1, JStr ''2025-04-11'', JStr ''09:00'')],
      next_id = 48\<rparr>"
    unfolding m by simp
  finally show ?thesis .
qed

lemma seeded_db:
  "insertDefaultAppointments empty_db =
     \<lparr>rows = map scheduled_row (enumerate 1 appointments), next_id = 46\<rparr>"
proof -
  have "filter (\<lambda>a. \<not> has_quadruple empty_db a) appointments = appointments"
    by (rule filter_True) (auto simp: empty_db_def)
  moreover have "length appointments = 45"
    by (simp add: appointments_def)
  ultimately show ?thesis
    unfolding insertDefaultAppointments_def seed_rows [OF appointments_no_nulls]
    by (simp add: empty_db_def)
qed

lemma valid_9930: "isValidTimeSlot (JStr ''99:30'') = Inr True"
  by code_simp

lemma valid_minus5: "isValidTimeSlot (JStr ''-5:00'') = Inr True"
  by code_simp

lemma Number_30: "Number ''30'' = Num 30"
  by code_simp

lemma is_30_30: "is_30 (Num 30)"
  by (simp add: is_30_def)

lemma minutes_abcd: "minutes_of ''ab:cd'' = Some NaN"
  by code_simp

subsection \<open>Requests without a restart keep every slot single\<close>

lemma well_formed_insertQuery:
  assumes wf: "well_formed s"
      and t: "truthy did" "truthy date" "truthy time"
      and free: "checkDoctorAvailabilityQuery did date time s = []"
  shows "well_formed (insertQuery pid did date time s)"
proof -
  have n: "\<not> is_null (int_column did)" "\<not> is_null date" "\<not> is_null time"
    using t by (simp_all add: truthy_not_null int_column_null del: int_column.simps)
  have other: "slot r \<noteq> (int_column did, date, time)" if "r \<in> set (rows s)" for r
    using free that n
    by (auto simp: checkDoctorAvailabilityQuery_def filter_empty_conv eq_int_column_def
          eq_column_def slot_def simp del: int_column.simps)
  have "(int_column did, date, time) \<notin> slot ` set (rows s)"
  proof
    assume "(int_column did, date, time) \<in> slot ` set (rows s)"
    then obtain r where "r \<in> set (rows s)" "slot r = (int_column did, date, time)"
      by (elim imageE) simp
    with other show False
      by simp
  qed
  moreover have "next_id s \<notin> appointment_id ` set (rows s)"
    using wf by (auto simp: well_formed_def list_all_iff)
  moreover have "slot \<lparr>appointment_id = next_id s, patient_id = int_column pid,
                       doctor_id = int_column did,
                       appointment_date = date, appointment_time = time,
                       status = JStr ''Scheduled''\<rparr> = (int_column did, date, time)"
    by (simp add: slot_def)
  ultimately show ?thesis
    using wf n(1)
    by (auto simp: well_formed_def insertQuery_def no_double_booking_def list_all_iff
          simp del: int_column.simps)
qed

lemma well_formed_book:
  assumes "well_formed s"
  shows "well_formed (snd (book_appointment pid did date time s))"
  using assms well_formed_insertQuery [OF assms, of did date time pid]
  by (auto simp: book_appointment_def split: sum.splits simp del: isValidTimeSlot.simps)

lemma well_formed_delete:
  assumes "well_formed s"
  shows "well_formed (snd (delete_appointment i s))"
  using assms
  by (auto simp: delete_appointment_def deleteQuery_def well_formed_def no_double_booking_def
        list_all_iff distinct_map_filter)

lemma split_at_id:
  assumes "distinct (map appointment_id xs)" and "a \<in> set xs"
  shows "\<exists>ys zs. xs = ys @ a # zs \<and> (\<forall>r \<in> set ys \<union> set zs. appointment_id r \<noteq> appointment_id a)"
proof -
  from assms(2) obtain ys zs where xs: "xs = ys @ a # zs"
    by (auto dest: split_list)
  with assms(1) have "\<forall>r \<in> set ys \<union> set zs. appointment_id r \<noteq> appointment_id a"
    by (auto simp: image_iff)
  with xs show ?thesis by blast
qed

lemma well_formed_updateQuery:
  assumes wf: "well_formed s"
      and t: "truthy date" "truthy time"
      and free: "checkAvailabilityQuery i date time s = Inr []"
  shows "well_formed (snd (updateQuery date time st i s))"
proof (cases "filter (\<lambda>r. appointment_id r = i) (rows s) = []")
  case True
  then show ?thesis
    using wf by (simp add: updateQuery_def map_upd_none)
next
  case False
  then obtain a where a: "a \<in> set (rows s)" "appointment_id a = i"
    by (auto simp: filter_empty_conv)
  from wf have d: "distinct (map appointment_id (rows s))"
    by (simp add: well_formed_def)
  from split_at_id [OF d a(1)] a(2) obtain ys zs
    where xs: "rows s = ys @ a # zs"
      and others: "\<forall>r \<in> set ys \<union> set zs. appointment_id r \<noteq> i"
    by blast
  let ?f = "\<lambda>r. if appointment_id r = i
                 then r\<lparr>appointment_date := date, appointment_time := time, status := st\<rparr>
                 else r"
  let ?a' = "a\<lparr>appointment_date := date, appointment_time := time, status := st\<rparr>"
  have same: "map ?f ys = ys" "map ?f zs = zs"
    using others by (auto simp: map_idI)
  then have rows': "map ?f (rows s) = ys @ ?a' # zs"
    using a(2) by (simp add: xs)
  have one: "filter (\<lambda>r. appointment_id r = i) (rows s) = [a]"
    using others a(2) by (simp add: xs filter_empty_conv)
  have doc: "\<not> is_null (doctor_id a)"
    using wf a(1) by (simp add: well_formed_def list_all_iff)
  have n: "\<not> is_null date" "\<not> is_null time"
    using t by (simp_all add: truthy_not_null)
  from free one
  have none: "filter (\<lambda>r. eq_column (doctor_id r) (doctor_id a) \<and> eq_column (appointment_date r) date \<and>
                         eq_column (appointment_time r) time \<and> appointment_id r \<noteq> i) (rows s) = []"
    by (simp add: checkAvailabilityQuery_def doctor_of_appointment_def)
  have "slot r \<noteq> slot ?a'" if "r \<in> set ys \<union> set zs" for r
  proof -
    from that have "r \<in> set (rows s)" "appointment_id r \<noteq> i"
      using others by (auto simp: xs)
    with none have "\<not> (eq_column (doctor_id r) (doctor_id a) \<and> eq_column (appointment_date r) date \<and>
                         eq_column (appointment_time r) time)"
      unfolding filter_empty_conv by blast
    then show ?thesis
      using doc n by (auto simp: eq_column_def slot_def)
  qed
  then have fresh: "slot ?a' \<notin> slot ` (set ys \<union> set zs)"
    by (metis (no_types, lifting) imageE)
  from wf have "distinct (map slot (ys @ a # zs))"
    by (simp add: well_formed_def no_double_booking_def xs)
  with fresh have "distinct (map slot (ys @ ?a' # zs))"
    by (auto simp: image_Un)
  moreover have "distinct (map appointment_id (ys @ ?a' # zs))"
    using d by (simp add: xs)
  moreover have "list_all (\<lambda>r. appointment_id r < next_id s \<and> \<not> is_null (doctor_id r)) (ys @ ?a' # zs)"
    using wf by (simp add: well_formed_def xs)
  ultimately show ?thesis
    by (simp add: updateQuery_def well_formed_def no_double_booking_def rows')
qed

lemma update_appointment_store:
  "snd (update_appointment i date time st s) = s \<or>
   (truthy date \<and> truthy time \<and> checkAvailabilityQuery i date time s = Inr [] \<and>
    snd (update_appointment i date time st s) =
      snd (updateQuery date time (if truthy st then st else JStr ''Scheduled'') i s))"
  by (auto simp: update_appointment_def split: sum.splits prod.splits
        simp del: isValidTimeSlot.simps)

lemma well_formed_update:
  assumes "well_formed s"
  shows "well_formed (snd (update_appointment i date time st s))"
  using update_appointment_store [of i date time st s] assms
    well_formed_updateQuery [OF assms, of date time i "if truthy st then st else JStr ''Scheduled''"]
  by auto

lemma well_formed_handle:
  assumes "well_formed s" and "q \<noteq> Start"
  shows "well_formed (snd (handle q s))"
proof (cases q)
  case (Book pid did date time)
  then show ?thesis
    using well_formed_book [OF assms(1), of pid did date time] by (simp add: case_prod_beta)
next
  case (Update i date time st)
  then show ?thesis
    using well_formed_update [OF assms(1), of i date time st] by (simp add: case_prod_beta)
next
  case (Delete i)
  then show ?thesis
    using well_formed_delete [OF assms(1), of i] by (simp add: case_prod_beta)
next
  case Start
  with assms(2) show ?thesis by simp
qed

lemma well_formed_run:
  assumes "Start \<notin> set qs" and "well_formed s"
  shows "well_formed (run qs s)"
  using assms
proof (induction qs arbitrary: s)
  case Nil
  then show ?case by simp
next
  case (Cons q qs)
  from Cons.prems have "q \<noteq> Start" and rest: "Start \<notin> set qs"
    by auto
  then have "well_formed (snd (handle q s))"
    using Cons.prems(2) by (intro well_formed_handle)
  then show ?case
    using Cons.IH [OF rest] by simp
qed

lemma distinct_slots_appointments:
  "distinct (map (\<lambda>(pid, did, date, time). (did, date, time)) appointments)"
  by (simp add: appointments_def appt_def)

lemma well_formed_seeded: "well_formed (insertDefaultAppointments empty_db)"
proof -
  have "map slot (map scheduled_row (enumerate n xs)) =
        map (\<lambda>(pid, did, date, time). (did, date, time)) xs" for n xs
    by (induction xs arbitrary: n) (auto simp: slot_def)
  moreover have "map appointment_id (map scheduled_row (enumerate n xs)) = [n ..< n + length xs]"
    for n xs
    by (induction xs arbitrary: n) (auto simp: upt_rec)
  moreover have "list_all (\<lambda>r. appointment_id r < 46 \<and> \<not> is_null (doctor_id r))
                   (map scheduled_row (enumerate 1 appointments))"
    by code_simp
  ultimately show ?thesis
    using distinct_slots_appointments
    by (simp add: seeded_db well_formed_def no_double_booking_def del: map_map)
qed

lemma no_double_booking_without_restart:
  assumes "Start \<notin> set qs"
  shows "no_double_booking (run (Start # qs) empty_db)"
  using well_formed_run [OF assms well_formed_seeded] by (simp add: well_formed_def)

subsection \<open>Decimal numerals\<close>

lemma decimal_digit:
  assumes "is_hex_digit c" "hex_digit_val c < 10"
  shows "c \<in> set ''0123456789''"
proof -
  from assms(1) have "c \<in> set ''0123456789'' \<or> c \<in> set ''abcdef'' \<or> c \<in> set ''ABCDEF''"
    by (simp add: is_hex_digit_def)
  moreover have "\<not> hex_digit_val c < 10" if "c \<in> set ''abcdef''"
    using that by (auto simp: hex_digit_val_def)
  moreover have "\<not> hex_digit_val c < 10" if "c \<in> set ''ABCDEF''"
    using that by (auto simp: hex_digit_val_def)
  ultimately show ?thesis
    using assms(2) by blast
qed

lemma decimal_digit_plain:
  assumes "c \<in> set ''0123456789''"
  shows "\<not> is_ws c" "c \<noteq> CHR ''.''" "c \<noteq> CHR ''e''" "c \<noteq> CHR ''E''"
    "c \<noteq> CHR ''+''" "c \<noteq> CHR ''-''" "c \<noteq> CHR ''I''" "radix_of c = None"
  using assms by (auto simp: is_ws_def radix_of_def)

lemma digits_chars:
  assumes "digits 10 ds = Some v"
  shows "ds \<noteq> []" "\<forall>c \<in> set ds. c \<in> set ''0123456789''"
  using assms decimal_digit by (auto simp: digits_def list_all_iff split: if_splits)

lemma dropWhile_hd: "xs \<noteq> [] \<Longrightarrow> \<not> P (hd xs) \<Longrightarrow> dropWhile P xs = xs"
  by (cases xs) simp_all

lemma trim_id:
  assumes "ds \<noteq> []" "\<not> is_ws (hd ds)" "\<not> is_ws (last ds)"
  shows "trim ds = ds"
proof -
  have "dropWhile is_ws ds = ds"
    using assms(1,2) by (rule dropWhile_hd)
  moreover have "dropWhile is_ws (rev ds) = rev ds"
    using assms(1,3) by (intro dropWhile_hd) (simp_all add: hd_rev)
  ultimately show ?thesis
    by (simp add: trim_def)
qed

lemma Number_digits:
  assumes "digits 10 ds = Some v"
  shows "Number ds = Num (of_nat v)"
proof -
  note d = digits_chars [OF assms]
  have plain: "\<not> is_ws c" "c \<noteq> CHR ''.''" "c \<noteq> CHR ''e''" "c \<noteq> CHR ''E''"
    "c \<noteq> CHR ''+''" "c \<noteq> CHR ''-''" "c \<noteq> CHR ''I''" "radix_of c = None"
    if "c \<in> set ds" for c
  proof -
    from that d(2) have c: "c \<in> set ''0123456789''"
      by blast
    show "\<not> is_ws c" "c \<noteq> CHR ''.''" "c \<noteq> CHR ''e''" "c \<noteq> CHR ''E''"
      "c \<noteq> CHR ''+''" "c \<noteq> CHR ''-''" "c \<noteq> CHR ''I''" "radix_of c = None"
      by (rule decimal_digit_plain [OF c])+
  qed
  have "hd ds \<in> set ds" "last ds \<in> set ds"
    using d(1) by simp_all
  then have t: "trim ds = ds"
    using d(1) plain(1) by (intro trim_id) auto
  have m: "mantissa ds = Some (of_nat v)"
  proof -
    have tw: "takeWhile (\<lambda>c. c \<noteq> CHR ''.'') ds = ds"
      and dw: "dropWhile (\<lambda>c. c \<noteq> CHR ''.'') ds = []"
      using plain(2) by (simp_all add: takeWhile_eq_all_conv)
    show ?thesis
      unfolding mantissa_def Let_def tw dw by (simp add: assms)
  qed
  have u: "unsigned_decimal ds = Some (of_nat v)"
  proof -
    have tw: "takeWhile (\<lambda>c. c \<noteq> CHR ''e'' \<and> c \<noteq> CHR ''E'') ds = ds"
      and dw: "dropWhile (\<lambda>c. c \<noteq> CHR ''e'' \<and> c \<noteq> CHR ''E'') ds = []"
      using plain(3,4) by (simp_all add: takeWhile_eq_all_conv)
    show ?thesis
      unfolding unsigned_decimal_def Let_def tw dw by (simp add: m)
  qed
  have "ds \<noteq> ''Infinity''"
  proof
    assume "ds = ''Infinity''"
    then have "CHR ''I'' \<in> set ds"
      by simp
    then show False
      using plain(7) by blast
  qed
  then have sud: "str_unsigned_decimal_literal ds = Num (of_nat v)"
    by (simp add: str_unsigned_decimal_literal_def u)
  obtain c cs where ds: "ds = c # cs"
    using d(1) by (cases ds) auto
  have "c \<noteq> CHR ''+''" "c \<noteq> CHR ''-''"
    using plain(5,6) [of c] by (simp_all add: ds)
  then have sd: "str_decimal_literal ds = Num (of_nat v)"
    using sud by (simp add: str_decimal_literal_def ds)
  have "str_numeric_literal ds = str_decimal_literal ds"
  proof (cases cs)
    case Nil
    then show ?thesis by (simp add: str_numeric_literal_def ds)
  next
    case (Cons x rest)
    with plain(8) [of x] show ?thesis
      by (simp add: str_numeric_literal_def ds)
  qed
  with sd t d(1) show ?thesis
    by (simp add: Number_def)
qed

lemma is_0_nat: "is_0 (Num (of_nat v)) = (v = 0)"
proof (cases "v = 0")
  case True
  then show ?thesis by (simp add: is_0_def)
next
  case False
  then have "(1::rat) \<le> of_nat v"
    by (metis One_nat_def Suc_leI neq0_conv of_nat_1 of_nat_mono)
  moreover have "(1::rat) / 2 ^ 1075 < 1"
    by simp
  ultimately show ?thesis
    using False by (simp add: is_0_def)
qed

lemma is_30_nat: "is_30 (Num (of_nat v)) = (v = 30)"
proof (cases "v = 30")
  case True
  then show ?thesis by (simp add: is_30_def)
next
  case False
  then have "1 \<le> \<bar>int v - 30\<bar>"
    by arith
  then have "(1::rat) \<le> of_int \<bar>int v - 30\<bar>"
    by (simp only: of_int_1_le_iff)
  then have "(1::rat) \<le> \<bar>of_nat v - 30\<bar>"
    by (simp add: of_int_abs [symmetric] del: of_int_abs)
  moreover have "(1::rat) / 2 ^ 49 < 1"
    by simp
  ultimately show ?thesis
    using False by (simp add: is_30_def)
qed

subsection \<open>The minutes of a time\<close>

lemma minutes_of_no_colon: "CHR '':'' \<notin> set t \<Longrightarrow> minutes_of t = None"
  by (simp add: minutes_of_def split_no_sep)

lemma minutes_of_piece:
  assumes "CHR '':'' \<notin> set hh" "CHR '':'' \<notin> set m" "rest = [] \<or> hd rest = CHR '':''"
  shows "minutes_of (hh @ CHR '':'' # m @ rest) = Some (Number m)"
proof (cases rest)
  case Nil
  with assms show ?thesis
    by (simp add: minutes_of_first split_no_sep)
next
  case (Cons c cs)
  with assms(3) have "rest = CHR '':'' # cs"
    by simp
  with assms(1,2) show ?thesis
    by (simp add: minutes_of_first split_first)
qed

lemma book_appointment_rejects:
  assumes "truthy pid" "truthy did" "truthy date" "t \<noteq> []"
      and "minutes_of t = None \<or> (\<exists>n. minutes_of t = Some n \<and> \<not> is_0 n \<and> \<not> is_30 n)"
  shows "book_appointment pid did date (JStr t) s =
           (Reply 400 ''Appointment time must be in 30-minute intervals (e.g., 10:00, 10:30)'', s)"
  using assms by (auto simp: book_appointment_def)

subsection \<open>The doctor of a request as an integer\<close>

lemma slot_taken_iff:
  assumes "truthy date" "truthy time" "int_column did = JNum (of_int d)"
  shows "(checkDoctorAvailabilityQuery did date time s \<noteq> []) =
         list_ex (\<lambda>r. doctor_id r = JNum (of_int d) \<and> appointment_date r = date \<and>
                       appointment_time r = time) (rows s)"
proof -
  have "\<not> is_null date" "\<not> is_null time"
    using assms(1,2) by (simp_all add: truthy_not_null)
  then show ?thesis
    by (auto simp: checkDoctorAvailabilityQuery_def filter_empty_conv list_ex_iff
          eq_int_column_def eq_column_def assms(3) is_null_def simp del: int_column.simps)
qed

lemma int_column_string_1: "int_column (JStr ''1'') = JNum 1"
  by code_simp

lemma valid_10_colon: "isValidTimeSlot (JStr ''10:'') = Inr True"
  by code_simp

lemma digits_15: "digits 10 ''15'' = Some 15"
  by code_simp

section \<open>The claims\<close>

text \<open>
  Claim C1. Along requests handled one at a time no two rows share a slot, and
  the seed routine never inserts a row whose slot another appointment holds.
  The code does not keep this: the seed routine looks for the patient as well
  as the slot. After the first start, the deletion of appointment 1 and the
  booking of its slot by patient 99, no slot is held twice; the next start
  inserts the default appointment of patient 1 into the slot that patient 99
  holds. (Without a restart every slot stays single:
  \<open>no_double_booking_without_restart\<close>.)
\<close>

theorem seed_double_books_after_restart:
  "no_double_booking
     (run [Start, Delete 1, Book (JNum 99) (JNum 1) (JStr ''2025-04-11'') (JStr ''09:00'')] empty_db)
   \<and> restarted_db =
       insertDefaultAppointments
         (run [Start, Delete 1, Book (JNum 99) (JNum 1) (JStr ''2025-04-11'') (JStr ''09:00'')]
            empty_db)
   \<and> has_quadruple restarted_db (JNum 99, JNum 1, JStr ''2025-04-11'', JStr ''09:00'')
   \<and> has_quadruple restarted_db (JNum 1, JNum 1, JStr ''2025-04-11'', JStr ''09:00'')
   \<and> \<not> no_double_booking restarted_db"
proof -
  have "no_double_booking
     (run (Start # [Delete 1, Book (JNum 99) (JNum 1) (JStr ''2025-04-11'') (JStr ''09:00'')])
        empty_db)"
    by (rule no_double_booking_without_restart) simp
  moreover have "restarted_db =
       insertDefaultAppointments
         (run [Start, Delete 1, Book (JNum 99) (JNum 1) (JStr ''2025-04-11'') (JStr ''09:00'')]
            empty_db)"
    by (simp add: restarted_db_def case_prod_beta)
  moreover have "has_quadruple restarted_db (JNum 99, JNum 1, JStr ''2025-04-11'', JStr ''09:00'')
   \<and> has_quadruple restarted_db (JNum 1, JNum 1, JStr ''2025-04-11'', JStr ''09:00'')
   \<and> \<not> no_double_booking restarted_db"
    unfolding restarted_rows by (simp add: no_double_booking_def slot_def)
  ultimately show ?thesis
    by blast
qed

text \<open>
  Claim C2, amended. For a booking whose four fields are truthy, whose time
  passes the validator and whose doctor reads as an integer: when no row has
  that doctor, date and time, the booking answers 201 and appends one row with
  status Scheduled, and a second booking of the slot (by any patient) answers
  400 and leaves the store as it is; when a row has that doctor, date and time
  already, the booking answers 400 and leaves the store as it is.
\<close>

theorem book_twice:
  assumes "truthy pid" "truthy pid'" "truthy did" "truthy date" "truthy time"
      and "isValidTimeSlot time = Inr True"
      and "int_column did = JNum (of_int d)"
  shows "(\<not> list_ex (\<lambda>r. doctor_id r = JNum (of_int d) \<and> appointment_date r = date \<and>
                        appointment_time r = time) (rows s) \<longrightarrow>
            book_appointment pid did date time s =
              (Reply 201 ''Appointment booked successfully!'',
               s\<lparr>rows := rows s @
                      [\<lparr>appointment_id = next_id s, patient_id = int_column pid,
                        doctor_id = JNum (of_int d), appointment_date = date,
                        appointment_time = time, status = JStr ''Scheduled''\<rparr>],
                 next_id := Suc (next_id s)\<rparr>)
          \<and> book_appointment pid' did date time
               (s\<lparr>rows := rows s @
                      [\<lparr>appointment_id = next_id s, patient_id = int_column pid,
                        doctor_id = JNum (of_int d), appointment_date = date,
                        appointment_time = time, status = JStr ''Scheduled''\<rparr>],
                 next_id := Suc (next_id s)\<rparr>) =
              (Reply 400 ''Doctor is already booked at this time'',
               s\<lparr>rows := rows s @
                      [\<lparr>appointment_id = next_id s, patient_id = int_column pid,
                        doctor_id = JNum (of_int d), appointment_date = date,
                        appointment_time = time, status = JStr ''Scheduled''\<rparr>],
                 next_id := Suc (next_id s)\<rparr>))
       \<and> (list_ex (\<lambda>r. doctor_id r = JNum (of_int d) \<and> appointment_date r = date \<and>
                      appointment_time r = time) (rows s) \<longrightarrow>
            book_appointment pid did date time s =
              (Reply 400 ''Doctor is already booked at this time'', s))"
proof -
  let ?s' = "s\<lparr>rows := rows s @
                      [\<lparr>appointment_id = next_id s, patient_id = int_column pid,
                        doctor_id = JNum (of_int d), appointment_date = date,
                        appointment_time = time, status = JStr ''Scheduled''\<rparr>],
                 next_id := Suc (next_id s)\<rparr>"
  have ins: "insertQuery pid did date time s = ?s'"
    by (simp add: insertQuery_def assms(7) del: int_column.simps)
  have taken: "list_ex (\<lambda>r. doctor_id r = JNum (of_int d) \<and> appointment_date r = date \<and>
                      appointment_time r = time) (rows ?s')"
    by simp
  show ?thesis
    using book_appointment_valid [OF assms(1,3-6), of s]
      book_appointment_valid [OF assms(2-6), of ?s'] taken
    unfolding slot_taken_iff [OF assms(4,5,7)] ins
    by (simp del: int_column.simps)
qed

theorem book_twice_witness:
  "book_appointment (JNum 2) (JStr ''1'') (JStr ''2025-04-11'') (JStr ''09:30'')
     \<lparr>rows = [scheduled_row (1, JNum 1, JNum 1, JStr ''2025-04-11'', JStr ''09:00'')], next_id = 2\<rparr> =
     (Reply 201 ''Appointment booked successfully!'',
      \<lparr>rows = [scheduled_row (1, JNum 1, JNum 1, JStr ''2025-04-11'', JStr ''09:00''),
               scheduled_row (2, JNum 2, JNum 1, JStr ''2025-04-11'', JStr ''09:30'')],
       next_id = 3\<rparr>)
   \<and> book_appointment (JNum 3) (JStr ''1'') (JStr ''2025-04-11'') (JStr ''09:30'')
      \<lparr>rows = [scheduled_row (1, JNum 1, JNum 1, JStr ''2025-04-11'', JStr ''09:00''),
               scheduled_row (2, JNum 2, JNum 1, JStr ''2025-04-11'', JStr ''09:30'')],
       next_id = 3\<rparr> =
     (Reply 400 ''Doctor is already booked at this time'',
      \<lparr>rows = [scheduled_row (1, JNum 1, JNum 1, JStr ''2025-04-11'', JStr ''09:00''),
               scheduled_row (2, JNum 2, JNum 1, JStr ''2025-04-11'', JStr ''09:30'')],
       next_id = 3\<rparr>)
   \<and> book_appointment (JNum 2) (JStr ''1'') (JStr ''2025-04-11'') (JStr ''09:00'')
     \<lparr>rows = [scheduled_row (1, JNum 1, JNum 1, JStr ''2025-04-11'', JStr ''09:00'')], next_id = 2\<rparr> =
     (Reply 400 ''Doctor is already booked at this time'',
      \<lparr>rows = [scheduled_row (1, JNum 1, JNum 1, JStr ''2025-04-11'', JStr ''09:00'')], next_id = 2\<rparr>)"
proof -
  let ?s = "\<lparr>rows = [scheduled_row (1, JNum 1, JNum 1, JStr ''2025-04-11'', JStr ''09:00'')],
             next_id = 2\<rparr>"
  have d: "int_column (JStr ''1'') = JNum (of_int 1)"
    by (simp add: int_column_string_1 del: int_column.simps)
  note free = book_twice [of "JNum 2" "JNum 3" "JStr ''1''" "JStr ''2025-04-11''" "JStr ''09:30''" 1 ?s,
                          OF _ _ _ _ _ valid_0930 d]
  note held = book_twice [of "JNum 2" "JNum 3" "JStr ''1''" "JStr ''2025-04-11''" "JStr ''09:00''" 1 ?s,
                          OF _ _ _ _ _ valid_0900 d]
  from free held show ?thesis
    by simp
qed

theorem book_twice_taken_counterexample:
  "book_appointment (JNum 2) (JNum 1) (JStr ''2025-04-11'') (JStr ''09:00'')
     \<lparr>rows = [scheduled_row (1, JNum 1, JNum 1, JStr ''2025-04-11'', JStr ''09:00'')], next_id = 2\<rparr> =
     (Reply 400 ''Doctor is already booked at this time'',
      \<lparr>rows = [scheduled_row (1, JNum 1, JNum 1, JStr ''2025-04-11'', JStr ''09:00'')], next_id = 2\<rparr>)
   \<and> book_appointment (JNum 2) (JNum 1) (JStr ''2025-04-11'') (JStr ''09:00'')
       (snd (book_appointment (JNum 2) (JNum 1) (JStr ''2025-04-11'') (JStr ''09:00'')
          \<lparr>rows = [scheduled_row (1, JNum 1, JNum 1, JStr ''2025-04-11'', JStr ''09:00'')], next_id = 2\<rparr>)) =
     (Reply 400 ''Doctor is already booked at this time'',
      \<lparr>rows = [scheduled_row (1, JNum 1, JNum 1, JStr ''2025-04-11'', JStr ''09:00'')], next_id = 2\<rparr>)"
  by (simp add: book_appointment_def valid_0900 checkDoctorAvailabilityQuery_def eq_int_column_def
        eq_column_def is_null_def del: isValidTimeSlot.simps)

text \<open>
  Claim C3, amended. In \<^verbatim>\<open>src/app.js\<close>, a booking whose four fields are truthy
  answers 400 with the message about 30-minute intervals and leaves the store
  as it is when its time is a string \<open>H:MM\<close> (or \<open>H:MM:...\<close>) whose minutes are a
  decimal numeral other than 0 and 30; and more generally when the text
  between the first colon and the next does not convert to the number 0 or 30,
  or the string has no colon.
\<close>

theorem book_appointment_invalid_time:
  assumes "truthy pid" "truthy did" "truthy date"
  shows "(CHR '':'' \<notin> set hh \<and> digits 10 mm = Some v \<and> v \<noteq> 0 \<and> v \<noteq> 30 \<and>
          (rest = [] \<or> hd rest = CHR '':'') \<longrightarrow>
            book_appointment pid did date (JStr (hh @ CHR '':'' # mm @ rest)) s =
              (Reply 400 ''Appointment time must be in 30-minute intervals (e.g., 10:00, 10:30)'', s))
       \<and> (CHR '':'' \<notin> set hh \<and> CHR '':'' \<notin> set m \<and> (rest = [] \<or> hd rest = CHR '':'') \<and>
          \<not> is_0 (Number m) \<and> \<not> is_30 (Number m) \<longrightarrow>
            book_appointment pid did date (JStr (hh @ CHR '':'' # m @ rest)) s =
              (Reply 400 ''Appointment time must be in 30-minute intervals (e.g., 10:00, 10:30)'', s))
       \<and> (t \<noteq> [] \<and> CHR '':'' \<notin> set t \<longrightarrow>
            book_appointment pid did date (JStr t) s =
              (Reply 400 ''Appointment time must be in 30-minute intervals (e.g., 10:00, 10:30)'', s))"
proof -
  have general: "book_appointment pid did date (JStr (hh @ CHR '':'' # m @ rest)) s =
              (Reply 400 ''Appointment time must be in 30-minute intervals (e.g., 10:00, 10:30)'', s)"
    if "CHR '':'' \<notin> set hh" "CHR '':'' \<notin> set m" "rest = [] \<or> hd rest = CHR '':''"
       "\<not> is_0 (Number m)" "\<not> is_30 (Number m)" for hh m rest
  proof -
    have "minutes_of (hh @ CHR '':'' # m @ rest) = Some (Number m)"
      using that(1-3) by (rule minutes_of_piece)
    with that(4,5) show ?thesis
      by (intro book_appointment_rejects assms) auto
  qed
  have numeral: "book_appointment pid did date (JStr (hh @ CHR '':'' # mm @ rest)) s =
              (Reply 400 ''Appointment time must be in 30-minute intervals (e.g., 10:00, 10:30)'', s)"
    if "CHR '':'' \<notin> set hh" "digits 10 mm = Some v" "v \<noteq> 0" "v \<noteq> 30"
       "rest = [] \<or> hd rest = CHR '':''"
  proof -
    have "CHR '':'' \<notin> set mm"
      using that(2) colon_digits [of mm 10] by auto
    moreover have "Number mm = Num (of_nat v)"
      using that(2) by (rule Number_digits)
    ultimately show ?thesis
      using that by (intro general) (simp_all add: is_0_nat is_30_nat)
  qed
  have none: "book_appointment pid did date (JStr t) s =
              (Reply 400 ''Appointment time must be in 30-minute intervals (e.g., 10:00, 10:30)'', s)"
    if "t \<noteq> []" "CHR '':'' \<notin> set t"
    using that by (intro book_appointment_rejects assms) (simp_all add: minutes_of_no_colon)
  from general numeral none show ?thesis
    by blast
qed

theorem book_appointment_invalid_time_witness:
  "book_appointment (JNum 1) (JNum 1) (JStr ''2025-04-11'') (JStr ''09:15'') empty_db =
     (Reply 400 ''Appointment time must be in 30-minute intervals (e.g., 10:00, 10:30)'', empty_db)
   \<and> book_appointment (JNum 1) (JNum 1) (JStr ''2025-04-11'') (JStr ''09:45:00'') empty_db =
     (Reply 400 ''Appointment time must be in 30-minute intervals (e.g., 10:00, 10:30)'', empty_db)
   \<and> book_appointment (JNum 1) (JNum 1) (JStr ''2025-04-11'') (JStr ''ab:cd'') empty_db =
     (Reply 400 ''Appointment time must be in 30-minute intervals (e.g., 10:00, 10:30)'', empty_db)
   \<and> book_appointment (JNum 1) (JNum 1) (JStr ''2025-04-11'') (JStr ''0915'') empty_db =
     (Reply 400 ''Appointment time must be in 30-minute intervals (e.g., 10:00, 10:30)'', empty_db)"
proof -
  have t: "truthy (JNum 1)" "truthy (JStr ''2025-04-11'')"
    by simp_all
  note a = book_appointment_invalid_time
             [OF t(1) t(1) t(2), where hh = "''09''" and mm = "''15''" and v = 15 and rest = "[]"
                and m = "''cd''" and t = "''0915''" and s = empty_db]
  note b = book_appointment_invalid_time
             [OF t(1) t(1) t(2), where hh = "''09''" and mm = "''45''" and v = 45 and rest = "'':00''"
                and m = "''cd''" and t = "''0915''" and s = empty_db]
  note c = book_appointment_invalid_time
             [OF t(1) t(1) t(2), where hh = "''ab''" and mm = "''15''" and v = 15 and rest = "[]"
                and m = "''cd''" and t = "''0915''" and s = empty_db]
  have "Number ''cd'' = NaN"
    by code_simp
  then have nan: "\<not> is_0 (Number ''cd'')" "\<not> is_30 (Number ''cd'')"
    by (simp_all add: is_0_def is_30_def)
  have "digits 10 ''45'' = Some 45"
    by code_simp
  with a b c digits_15 nan show ?thesis
    by simp
qed

theorem book_invalid_time_counterexample:
  "book_appointment_part_000 (JNum 1) (JNum 1) (JStr ''2025-04-11'') (JStr ''09:15'') empty_db =
     (Reply 201 ''Appointment booked successfully!'',
      \<lparr>rows = [scheduled_row (1, JNum 1, JNum 1, JStr ''2025-04-11'', JStr ''09:15'')], next_id = 2\<rparr>)
   \<and> book_appointment (JNum 1) (JNum 1) (JStr ''2025-04-11'') (JStr ''10:'') empty_db =
     (Reply 201 ''Appointment booked successfully!'',
      \<lparr>rows = [scheduled_row (1, JNum 1, JNum 1, JStr ''2025-04-11'', JStr ''10:'')], next_id = 2\<rparr>)"
  by (simp add: book_appointment_part_000_def book_appointment_def valid_10_colon
        checkDoctorAvailabilityQuery_def insertQuery_def empty_db_def del: isValidTimeSlot.simps)

text \<open>
  Claim C4, amended. Let the date and time of an update be truthy and pass the
  validator, and let \<open>a\<close> be the one row with the id. If the doctor of \<open>a\<close> is
  not NULL and another row of that doctor holds the requested slot, the update
  answers 400 and leaves the store as it is. If the requested slot is the one
  \<open>a\<close> holds and no other row of its doctor holds it, the update answers 200.
\<close>

theorem update_appointment_slot_check:
  assumes "truthy date" "truthy time" "isValidTimeSlot time = Inr True"
      and "filter (\<lambda>r. appointment_id r = i) (rows s) = [a]"
  shows "(\<not> is_null (doctor_id a) \<and>
          list_ex (\<lambda>b. appointment_id b \<noteq> i \<and> doctor_id b = doctor_id a \<and>
                        appointment_date b = date \<and> appointment_time b = time) (rows s) \<longrightarrow>
            update_appointment i date time st s =
              (Reply 400 ''Another appointment already exists at this time'', s))
       \<and> (date = appointment_date a \<and> time = appointment_time a \<and>
          \<not> list_ex (\<lambda>b. appointment_id b \<noteq> i \<and> doctor_id b = doctor_id a \<and>
                        appointment_date b = date \<and> appointment_time b = time) (rows s) \<longrightarrow>
            fst (update_appointment i date time st s) = Reply 200 ''Appointment updated successfully'')"
proof (intro conjI impI)
  assume "\<not> is_null (doctor_id a) \<and>
          list_ex (\<lambda>b. appointment_id b \<noteq> i \<and> doctor_id b = doctor_id a \<and>
                        appointment_date b = date \<and> appointment_time b = time) (rows s)"
  then show "update_appointment i date time st s =
              (Reply 400 ''Another appointment already exists at this time'', s)"
    using update_taken [OF assms] by blast
next
  assume h: "date = appointment_date a \<and> time = appointment_time a \<and>
          \<not> list_ex (\<lambda>b. appointment_id b \<noteq> i \<and> doctor_id b = doctor_id a \<and>
                        appointment_date b = date \<and> appointment_time b = time) (rows s)"
  then have "filter (\<lambda>r. appointment_id r \<noteq> i \<and> doctor_id r = doctor_id a \<and>
                       appointment_date r = date \<and> appointment_time r = time) (rows s) = []"
    unfolding list_ex_iff filter_empty_conv by blast
  then show "fst (update_appointment i date time st s) = Reply 200 ''Appointment updated successfully''"
    using update_ok [OF assms] by simp
qed

theorem update_appointment_slot_check_witness:
  "update_appointment 1 (JStr ''2025-04-11'') (JStr ''09:30'') JUndefined
     \<lparr>rows = [scheduled_row (1, JNum 1, JNum 1, JStr ''2025-04-11'', JStr ''09:00''),
              scheduled_row (2, JNum 2, JNum 1, JStr ''2025-04-11'', JStr ''09:30'')],
      next_id = 3\<rparr> =
     (Reply 400 ''Another appointment already exists at this time'',
      \<lparr>rows = [scheduled_row (1, JNum 1, JNum 1, JStr ''2025-04-11'', JStr ''09:00''),
               scheduled_row (2, JNum 2, JNum 1, JStr ''2025-04-11'', JStr ''09:30'')],
       next_id = 3\<rparr>)
   \<and> fst (update_appointment 1 (JStr ''2025-04-11'') (JStr ''09:00'') JUndefined
       \<lparr>rows = [scheduled_row (1, JNum 1, JNum 1, JStr ''2025-04-11'', JStr ''09:00''),
                scheduled_row (2, JNum 2, JNum 1, JStr ''2025-04-11'', JStr ''09:30'')],
        next_id = 3\<rparr>) =
     Reply 200 ''Appointment updated successfully''"
  using update_appointment_slot_check
          [of "JStr ''2025-04-11''" "JStr ''09:30''" 1
              "\<lparr>rows = [scheduled_row (1, JNum 1, JNum 1, JStr ''2025-04-11'', JStr ''09:00''),
                       scheduled_row (2, JNum 2, JNum 1, JStr ''2025-04-11'', JStr ''09:30'')],
                next_id = 3\<rparr>"
              "scheduled_row (1, JNum 1, JNum 1, JStr ''2025-04-11'', JStr ''09:00'')" JUndefined]
        update_appointment_slot_check
          [of "JStr ''2025-04-11''" "JStr ''09:00''" 1
              "\<lparr>rows = [scheduled_row (1, JNum 1, JNum 1, JStr ''2025-04-11'', JStr ''09:00''),
                       scheduled_row (2, JNum 2, JNum 1, JStr ''2025-04-11'', JStr ''09:30'')],
                next_id = 3\<rparr>"
              "scheduled_row (1, JNum 1, JNum 1, JStr ''2025-04-11'', JStr ''09:00'')" JUndefined]
        valid_0900 valid_0930
  by (simp add: is_null_def del: isValidTimeSlot.simps)

theorem update_own_slot_counterexample:
  "filter (\<lambda>r. appointment_id r = 47) (rows restarted_db) =
     [scheduled_row (47, JNum 1, JNum 1, JStr ''2025-04-11'', JStr ''09:00'')]
   \<and> update_appointment 47 (JStr ''2025-04-11'') (JStr ''09:00'') JUndefined restarted_db =
     (Reply 400 ''Another appointment already exists at this time'', restarted_db)
   \<and> snd (book_appointment_part_000 (JNum 1) (JNum 1) (JStr ''2025-04-11'') (JStr ''09:15'') empty_db) =
     \<lparr>rows = [scheduled_row (1, JNum 1, JNum 1, JStr ''2025-04-11'', JStr ''09:15'')], next_id = 2\<rparr>
   \<and> update_appointment 1 (JStr ''2025-04-11'') (JStr ''09:15'') JUndefined
       \<lparr>rows = [scheduled_row (1, JNum 1, JNum 1, JStr ''2025-04-11'', JStr ''09:15'')], next_id = 2\<rparr> =
     (Reply 400 ''Appointment time must be in 30-minute intervals (e.g., 10:00, 10:30)'',
      \<lparr>rows = [scheduled_row (1, JNum 1, JNum 1, JStr ''2025-04-11'', JStr ''09:15'')], next_id = 2\<rparr>)"
proof -
  have one: "filter (\<lambda>r. appointment_id r = 47) (rows restarted_db) =
     [scheduled_row (47, JNum 1, JNum 1, JStr ''2025-04-11'', JStr ''09:00'')]"
    unfolding restarted_rows by code_simp
  have other: "list_ex (\<lambda>b. appointment_id b \<noteq> 47 \<and>
        doctor_id b = doctor_id (scheduled_row (47, JNum 1, JNum 1, JStr ''2025-04-11'', JStr ''09:00'')) \<and>
        appointment_date b = JStr ''2025-04-11'' \<and> appointment_time b = JStr ''09:00'')
      (rows restarted_db)"
    unfolding restarted_rows by (simp add: list_ex_iff)
  have "update_appointment 47 (JStr ''2025-04-11'') (JStr ''09:00'') JUndefined restarted_db =
     (Reply 400 ''Another appointment already exists at this time'', restarted_db)"
    by (rule update_taken [OF _ _ valid_0900 one _ other]) (simp_all add: is_null_def)
  moreover have "snd (book_appointment_part_000 (JNum 1) (JNum 1) (JStr ''2025-04-11'') (JStr ''09:15'')
                        empty_db) =
     \<lparr>rows = [scheduled_row (1, JNum 1, JNum 1, JStr ''2025-04-11'', JStr ''09:15'')], next_id = 2\<rparr>"
    by (simp add: book_appointment_part_000_def checkDoctorAvailabilityQuery_def insertQuery_def
          empty_db_def)
  moreover have "update_appointment 1 (JStr ''2025-04-11'') (JStr ''09:15'') JUndefined
       \<lparr>rows = [scheduled_row (1, JNum 1, JNum 1, JStr ''2025-04-11'', JStr ''09:15'')], next_id = 2\<rparr> =
     (Reply 400 ''Appointment time must be in 30-minute intervals (e.g., 10:00, 10:30)'',
      \<lparr>rows = [scheduled_row (1, JNum 1, JNum 1, JStr ''2025-04-11'', JStr ''09:15'')], next_id = 2\<rparr>)"
    by (simp add: update_appointment_def invalid_0915 del: isValidTimeSlot.simps)
  ultimately show ?thesis
    using one by blast
qed

text \<open>
  Claim C5, amended. Let the date and time of an update be truthy and pass the
  validator. If no row has the id, the update answers 404 and leaves the store
  as it is. If one row has the id and no other row of its doctor holds the
  requested slot, the update sets the date, the time and the status of that
  row (the status is Scheduled when the request has none), leaves every other
  row as it is, and answers 200.
\<close>

theorem update_appointment_applies:
  assumes "truthy date" "truthy time" "isValidTimeSlot time = Inr True"
  shows "(filter (\<lambda>r. appointment_id r = i) (rows s) = [] \<longrightarrow>
            update_appointment i date time st s = (Reply 404 ''Appointment not found'', s))
       \<and> (filter (\<lambda>r. appointment_id r = i) (rows s) = [a] \<and>
          filter (\<lambda>r. appointment_id r \<noteq> i \<and> doctor_id r = doctor_id a \<and>
                       appointment_date r = date \<and> appointment_time r = time) (rows s) = [] \<longrightarrow>
            update_appointment i date time st s =
              (Reply 200 ''Appointment updated successfully'',
               s\<lparr>rows := map (\<lambda>r. if appointment_id r = i
                                    then r\<lparr>appointment_date := date, appointment_time := time,
                                           status := (if truthy st then st else JStr ''Scheduled'')\<rparr>
                                    else r) (rows s)\<rparr>))"
  using update_not_found [OF assms] update_ok [OF assms] by blast

theorem update_appointment_applies_witness:
  "update_appointment 7 (JStr ''2025-04-11'') (JStr ''10:00'') JUndefined
     \<lparr>rows = [scheduled_row (1, JNum 1, JNum 1, JStr ''2025-04-11'', JStr ''09:00''),
              scheduled_row (2, JNum 2, JNum 1, JStr ''2025-04-11'', JStr ''09:30'')],
      next_id = 3\<rparr> =
     (Reply 404 ''Appointment not found'',
      \<lparr>rows = [scheduled_row (1, JNum 1, JNum 1, JStr ''2025-04-11'', JStr ''09:00''),
               scheduled_row (2, JNum 2, JNum 1, JStr ''2025-04-11'', JStr ''09:30'')],
       next_id = 3\<rparr>)
   \<and> update_appointment 1 (JStr ''2025-04-12'') (JStr ''10:00'') JUndefined
     \<lparr>rows = [scheduled_row (1, JNum 1, JNum 1, JStr ''2025-04-11'', JStr ''09:00'')
                 \<lparr>status := JStr ''Completed''\<rparr>,
              scheduled_row (2, JNum 2, JNum 1, JStr ''2025-04-11'', JStr ''09:30'')],
      next_id = 3\<rparr> =
     (Reply 200 ''Appointment updated successfully'',
      \<lparr>rows = [scheduled_row (1, JNum 1, JNum 1, JStr ''2025-04-12'', JStr ''10:00''),
               scheduled_row (2, JNum 2, JNum 1, JStr ''2025-04-11'', JStr ''09:30'')],
       next_id = 3\<rparr>)"
  using update_appointment_applies
          [of "JStr ''2025-04-11''" "JStr ''10:00''" 7
              "\<lparr>rows = [scheduled_row (1, JNum 1, JNum 1, JStr ''2025-04-11'', JStr ''09:00''),
                       scheduled_row (2, JNum 2, JNum 1, JStr ''2025-04-11'', JStr ''09:30'')],
                next_id = 3\<rparr>" JUndefined]
        update_appointment_applies
          [of "JStr ''2025-04-12''" "JStr ''10:00''" 1
              "\<lparr>rows = [scheduled_row (1, JNum 1, JNum 1, JStr ''2025-04-11'', JStr ''09:00'')
                          \<lparr>status := JStr ''Completed''\<rparr>,
                       scheduled_row (2, JNum 2, JNum 1, JStr ''2025-04-11'', JStr ''09:30'')],
                next_id = 3\<rparr>" JUndefined
              "scheduled_row (1, JNum 1, JNum 1, JStr ''2025-04-11'', JStr ''09:00'')
                          \<lparr>status := JStr ''Completed''\<rparr>"]
        valid_1000
  by (simp del: isValidTimeSlot.simps)

theorem update_existing_row_counterexample:
  "update_appointment 1 (JStr ''2025-04-11'') (JStr ''09:30'') JUndefined
     \<lparr>rows = [scheduled_row (1, JNum 1, JNum 1, JStr ''2025-04-11'', JStr ''09:00''),
              scheduled_row (2, JNum 2, JNum 1, JStr ''2025-04-11'', JStr ''09:30'')],
      next_id = 3\<rparr> =
     (Reply 400 ''Another appointment already exists at this time'',
      \<lparr>rows = [scheduled_row (1, JNum 1, JNum 1, JStr ''2025-04-11'', JStr ''09:00''),
               scheduled_row (2, JNum 2, JNum 1, JStr ''2025-04-11'', JStr ''09:30'')],
       next_id = 3\<rparr>)"
  by (simp add: update_appointment_def valid_0930 checkAvailabilityQuery_def
        doctor_of_appointment_def eq_column_def is_null_def del: isValidTimeSlot.simps)

text \<open>
  Claim C6. Deleting an id that no row has answers 404 and leaves the store as
  it is. Deleting an id that a row has answers 200 and removes the rows with
  that id and no other (one row, as ids are distinct); deleting it again
  answers 404.
\<close>

theorem delete_appointment_spec:
  "(filter (\<lambda>r. appointment_id r = i) (rows s) = [] \<longrightarrow>
      delete_appointment i s = (Reply 404 ''Appointment not found'', s))
   \<and> (filter (\<lambda>r. appointment_id r = i) (rows s) \<noteq> [] \<longrightarrow>
      delete_appointment i s =
        (Reply 200 ''Appointment deleted successfully'',
         s\<lparr>rows := filter (\<lambda>r. appointment_id r \<noteq> i) (rows s)\<rparr>)
      \<and> (distinct (map appointment_id (rows s)) \<longrightarrow>
           Suc (length (rows (snd (delete_appointment i s)))) = length (rows s))
      \<and> delete_appointment i (snd (delete_appointment i s)) =
        (Reply 404 ''Appointment not found'', snd (delete_appointment i s)))"
  by (auto simp: delete_appointment_def deleteQuery_def filter_id_empty filter_id_one)

theorem delete_appointment_spec_witness:
  "delete_appointment 7
     \<lparr>rows = [scheduled_row (1, JNum 1, JNum 1, JStr ''2025-04-11'', JStr ''09:00''),
              scheduled_row (2, JNum 2, JNum 1, JStr ''2025-04-11'', JStr ''09:30'')],
      next_id = 3\<rparr> =
     (Reply 404 ''Appointment not found'',
      \<lparr>rows = [scheduled_row (1, JNum 1, JNum 1, JStr ''2025-04-11'', JStr ''09:00''),
               scheduled_row (2, JNum 2, JNum 1, JStr ''2025-04-11'', JStr ''09:30'')],
       next_id = 3\<rparr>)
   \<and> delete_appointment 1
     \<lparr>rows = [scheduled_row (1, JNum 1, JNum 1, JStr ''2025-04-11'', JStr ''09:00''),
              scheduled_row (2, JNum 2, JNum 1, JStr ''2025-04-11'', JStr ''09:30'')],
      next_id = 3\<rparr> =
     (Reply 200 ''Appointment deleted successfully'',
      \<lparr>rows = [scheduled_row (2, JNum 2, JNum 1, JStr ''2025-04-11'', JStr ''09:30'')],
       next_id = 3\<rparr>)
   \<and> fst (delete_appointment 1
       (snd (delete_appointment 1
          \<lparr>rows = [scheduled_row (1, JNum 1, JNum 1, JStr ''2025-04-11'', JStr ''09:00''),
                   scheduled_row (2, JNum 2, JNum 1, JStr ''2025-04-11'', JStr ''09:30'')],
           next_id = 3\<rparr>))) =
     Reply 404 ''Appointment not found''"
proof -
  let ?s = "\<lparr>rows = [scheduled_row (1, JNum 1, JNum 1, JStr ''2025-04-11'', JStr ''09:00''),
                     scheduled_row (2, JNum 2, JNum 1, JStr ''2025-04-11'', JStr ''09:30'')],
             next_id = 3\<rparr>"
  have none: "filter (\<lambda>r. appointment_id r = 7) (rows ?s) = []"
    by simp
  have some: "filter (\<lambda>r. appointment_id r = 1) (rows ?s) \<noteq> []"
    by simp
  have rest: "?s\<lparr>rows := filter (\<lambda>r. appointment_id r \<noteq> 1) (rows ?s)\<rparr> =
      \<lparr>rows = [scheduled_row (2, JNum 2, JNum 1, JStr ''2025-04-11'', JStr ''09:30'')],
       next_id = 3\<rparr>"
    by simp
  from delete_appointment_spec [of 7 ?s] none
  have "delete_appointment 7 ?s = (Reply 404 ''Appointment not found'', ?s)"
    by blast
  moreover from delete_appointment_spec [of 1 ?s] some
  have "delete_appointment 1 ?s =
          (Reply 200 ''Appointment deleted successfully'',
           ?s\<lparr>rows := filter (\<lambda>r. appointment_id r \<noteq> 1) (rows ?s)\<rparr>)"
    and "delete_appointment 1 (snd (delete_appointment 1 ?s)) =
          (Reply 404 ''Appointment not found'', snd (delete_appointment 1 ?s))"
    by blast+
  ultimately show ?thesis
    unfolding rest by (simp del: scheduled_row.simps)
qed

text \<open>
  Claim C7. The seed routine appends, in the order of its list and each with
  status Scheduled, the tuples of the list that no row of the store has as its
  (patient, doctor, date, time) quadruple, and nothing else; run again on the
  result it leaves the store as it is. Checking and inserting the tuples in
  turn gives the same store.
\<close>

theorem insertDefaultAppointments_idempotent:
  "insertDefaultAppointments s =
     s\<lparr>rows := rows s @ map scheduled_row
                          (enumerate (next_id s) (filter (\<lambda>a. \<not> has_quadruple s a) appointments)),
       next_id := next_id s + length (filter (\<lambda>a. \<not> has_quadruple s a) appointments)\<rparr>
   \<and> insertDefaultAppointments (insertDefaultAppointments s) = insertDefaultAppointments s
   \<and> seed_in_turn appointments s = insertDefaultAppointments s"
  unfolding insertDefaultAppointments_def
  using seed_rows [OF appointments_no_nulls, of s] seed_idem [OF appointments_no_nulls, of s]
    seed_in_turn_seed [OF distinct_appointments appointments_no_nulls, of s]
  by simp

text \<open>
  Claim C8. After the seed routine has run on the empty store, the store has
  the row of patient 1 with doctor 1 on 2025-04-11 at 09:00, and a booking of
  that patient, doctor, date and time answers 400 with the message
  \<^verbatim>\<open>Doctor is already booked at this time\<close> and leaves the store as it is.
\<close>

theorem book_after_seed:
  "has_quadruple (insertDefaultAppointments empty_db)
     (JNum 1, JNum 1, JStr ''2025-04-11'', JStr ''09:00'')
   \<and> book_appointment (JNum 1) (JNum 1) (JStr ''2025-04-11'') (JStr ''09:00'')
       (insertDefaultAppointments empty_db) =
     (Reply 400 ''Doctor is already booked at this time'', insertDefaultAppointments empty_db)"
proof -
  have "has_quadruple (insertDefaultAppointments empty_db)
     (JNum 1, JNum 1, JStr ''2025-04-11'', JStr ''09:00'')"
    unfolding insertDefaultAppointments_def
    by (rule has_quadruple_seed [OF appointments_no_nulls]) (simp add: appointments_def appt_def)
  moreover from this
  have "checkDoctorAvailabilityQuery (JNum 1) (JStr ''2025-04-11'') (JStr ''09:00'')
          (insertDefaultAppointments empty_db) \<noteq> []"
    by (auto simp: checkDoctorAvailabilityQuery_def filter_empty_conv list_ex_iff eq_int_column_def
          eq_column_def is_null_def)
  ultimately show ?thesis
    using book_appointment_valid [OF _ _ _ _ valid_0900, of "JNum 1" "JNum 1" "JStr ''2025-04-11''"
                                    "insertDefaultAppointments empty_db"]
    by simp
qed

theorem book_after_seed_witness:
  "fst (book_appointment (JNum 1) (JNum 1) (JStr ''2025-04-11'') (JStr ''09:00'')
          (insertDefaultAppointments empty_db)) =
   Reply 400 ''Doctor is already booked at this time''"
  using book_after_seed by simp

text \<open>
  Claim C9. The validator reads the piece after the first colon only. When the
  text after the first colon is a number that equals 0 or 30 the time passes,
  whatever stands before the colon; the text before the first colon never
  changes the verdict; a time whose second piece is not a number is rejected,
  by the booking and by the update. So \<^verbatim>\<open>99:30\<close> and \<^verbatim>\<open>-5:00\<close> pass, a booking
  with such a time goes on to the availability check, and an update with such
  a time of a row in a free slot answers 200.
\<close>

theorem isValidTimeSlot_minutes_only:
  "(CHR '':'' \<notin> set h \<and> (is_0 (Number m) \<or> is_30 (Number m)) \<longrightarrow>
      isValidTimeSlot (JStr (h @ CHR '':'' # m)) = Inr True)
   \<and> (CHR '':'' \<notin> set h \<and> CHR '':'' \<notin> set h' \<longrightarrow>
      isValidTimeSlot (JStr (h @ CHR '':'' # rest)) = isValidTimeSlot (JStr (h' @ CHR '':'' # rest)))
   \<and> (minutes_of t = Some NaN \<longrightarrow>
      isValidTimeSlot (JStr t) = Inr False
      \<and> (truthy pid \<and> truthy did \<and> truthy date \<longrightarrow>
           book_appointment pid did date (JStr t) s =
             (Reply 400 ''Appointment time must be in 30-minute intervals (e.g., 10:00, 10:30)'', s))
      \<and> (truthy date \<longrightarrow>
           update_appointment i date (JStr t) st s =
             (Reply 400 ''Appointment time must be in 30-minute intervals (e.g., 10:00, 10:30)'', s)))
   \<and> isValidTimeSlot (JStr ''99:30'') = Inr True
   \<and> isValidTimeSlot (JStr ''-5:00'') = Inr True
   \<and> (truthy pid \<and> truthy did \<and> truthy date \<and> (time = JStr ''99:30'' \<or> time = JStr ''-5:00'') \<longrightarrow>
      book_appointment pid did date time s =
        (if checkDoctorAvailabilityQuery did date time s \<noteq> []
         then (Reply 400 ''Doctor is already booked at this time'', s)
         else (Reply 201 ''Appointment booked successfully!'', insertQuery pid did date time s)))
   \<and> (truthy date \<and> (time = JStr ''99:30'' \<or> time = JStr ''-5:00'') \<and>
      filter (\<lambda>r. appointment_id r = i) (rows s) = [a] \<and>
      filter (\<lambda>r. appointment_id r \<noteq> i \<and> doctor_id r = doctor_id a \<and>
                   appointment_date r = date \<and> appointment_time r = time) (rows s) = [] \<longrightarrow>
      fst (update_appointment i date time st s) = Reply 200 ''Appointment updated successfully'')"
proof -
  have pass: "isValidTimeSlot (JStr (h @ CHR '':'' # m)) = Inr True"
    if h: "CHR '':'' \<notin> set h \<and> (is_0 (Number m) \<or> is_30 (Number m))"
  proof -
    from h have "Number m \<noteq> NaN"
      by (auto simp: is_0_def is_30_def)
    then have "CHR '':'' \<notin> set m"
      using colon_Number by blast
    then have "minutes_of (h @ CHR '':'' # m) = Some (Number m)"
      using h by (simp add: minutes_of_first split_no_sep)
    then show ?thesis
      using h by simp
  qed
  have hours: "isValidTimeSlot (JStr (h @ CHR '':'' # rest)) =
               isValidTimeSlot (JStr (h' @ CHR '':'' # rest))"
    if "CHR '':'' \<notin> set h \<and> CHR '':'' \<notin> set h'"
    using that by (simp add: minutes_of_first)
  have nan: "isValidTimeSlot (JStr t) = Inr False
      \<and> (truthy pid \<and> truthy did \<and> truthy date \<longrightarrow>
           book_appointment pid did date (JStr t) s =
             (Reply 400 ''Appointment time must be in 30-minute intervals (e.g., 10:00, 10:30)'', s))
      \<and> (truthy date \<longrightarrow>
           update_appointment i date (JStr t) st s =
             (Reply 400 ''Appointment time must be in 30-minute intervals (e.g., 10:00, 10:30)'', s))"
    if nan: "minutes_of t = Some NaN"
  proof -
    from nan have bad: "isValidTimeSlot (JStr t) = Inr False"
      by (simp add: is_0_def is_30_def)
    from nan have "t \<noteq> []"
      by (auto simp: minutes_of_def)
    then have "truthy (JStr t)"
      by simp
    with bad show ?thesis
      by (simp add: book_appointment_def update_appointment_def
            del: isValidTimeSlot.simps truthy.simps)
  qed
  have book: "book_appointment pid did date time s =
        (if checkDoctorAvailabilityQuery did date time s \<noteq> []
         then (Reply 400 ''Doctor is already booked at this time'', s)
         else (Reply 201 ''Appointment booked successfully!'', insertQuery pid did date time s))"
    if h: "truthy pid \<and> truthy did \<and> truthy date \<and>
           (time = JStr ''99:30'' \<or> time = JStr ''-5:00'')"
  proof -
    from h have "truthy time" "isValidTimeSlot time = Inr True"
      using valid_9930 valid_minus5 by auto
    with h show ?thesis
      by (intro book_appointment_valid) simp_all
  qed
  have upd: "fst (update_appointment i date time st s) = Reply 200 ''Appointment updated successfully''"
    if h: "truthy date \<and> (time = JStr ''99:30'' \<or> time = JStr ''-5:00'') \<and>
      filter (\<lambda>r. appointment_id r = i) (rows s) = [a] \<and>
      filter (\<lambda>r. appointment_id r \<noteq> i \<and> doctor_id r = doctor_id a \<and>
                   appointment_date r = date \<and> appointment_time r = time) (rows s) = []"
  proof -
    from h have "truthy time" "isValidTimeSlot time = Inr True"
      using valid_9930 valid_minus5 by auto
    with h show ?thesis
      using update_ok [of date time i s a st] by simp
  qed
  from pass hours nan valid_9930 valid_minus5 book upd show ?thesis
    by blast
qed

theorem isValidTimeSlot_minutes_only_witness:
  "isValidTimeSlot (JStr ''7:30'') = Inr True
   \<and> isValidTimeSlot (JStr ''ab:cd'') = Inr False
   \<and> book_appointment (JNum 1) (JNum 1) (JStr ''2025-04-11'') (JStr ''ab:cd'') empty_db =
       (Reply 400 ''Appointment time must be in 30-minute intervals (e.g., 10:00, 10:30)'', empty_db)
   \<and> book_appointment (JNum 1) (JNum 1) (JStr ''2025-04-11'') (JStr ''99:30'') empty_db =
       (Reply 201 ''Appointment booked successfully!'',
        insertQuery (JNum 1) (JNum 1) (JStr ''2025-04-11'') (JStr ''99:30'') empty_db)
   \<and> fst (update_appointment 1 (JStr ''2025-04-11'') (JStr ''-5:00'') JUndefined
       \<lparr>rows = [scheduled_row (1, JNum 1, JNum 1, JStr ''2025-04-11'', JStr ''09:00'')],
        next_id = 2\<rparr>) = Reply 200 ''Appointment updated successfully''"
  using isValidTimeSlot_minutes_only
          [where h = "''7''" and m = "''30''" and h' = "''8''" and rest = "''30''" and t = "''ab:cd''"
             and pid = "JNum 1" and did = "JNum 1" and date = "JStr ''2025-04-11''"
             and time = "JStr ''99:30''" and s = empty_db and i = 0
             and a = "scheduled_row (1, JNum 1, JNum 1, JStr ''2025-04-11'', JStr ''09:00'')"
             and st = JUndefined]
        isValidTimeSlot_minutes_only
          [where h = "''7''" and m = "''30''" and h' = "''8''" and rest = "''30''" and t = "''ab:cd''"
             and pid = "JNum 1" and did = "JNum 1" and date = "JStr ''2025-04-11''"
             and time = "JStr ''-5:00''"
             and s = "\<lparr>rows = [scheduled_row (1, JNum 1, JNum 1, JStr ''2025-04-11'', JStr ''09:00'')],
                        next_id = 2\<rparr>"
             and i = 1
             and a = "scheduled_row (1, JNum 1, JNum 1, JStr ''2025-04-11'', JStr ''09:00'')"
             and st = JUndefined]
        Number_30 is_30_30 minutes_abcd
  by (simp add: checkDoctorAvailabilityQuery_def empty_db_def del: isValidTimeSlot.simps)

text \<open>
  Claim C10. A booking whose patient or doctor is the number 0, or one of whose
  fields is the empty string, answers 400 with the message
  \<^verbatim>\<open>All fields are required\<close> and leaves the store as it is, in both files, as
  it does when the field is absent.
\<close>

theorem book_appointment_falsy_field:
  assumes "pid = JNum 0 \<or> did = JNum 0 \<or>
           pid = JStr [] \<or> did = JStr [] \<or> date = JStr [] \<or> time = JStr []"
  shows "book_appointment pid did date time s = (Reply 400 ''All fields are required'', s)
       \<and> book_appointment_part_000 pid did date time s = (Reply 400 ''All fields are required'', s)
       \<and> book_appointment JUndefined did date time s = (Reply 400 ''All fields are required'', s)
       \<and> book_appointment pid JUndefined date time s = (Reply 400 ''All fields are required'', s)
       \<and> book_appointment pid did JUndefined time s = (Reply 400 ''All fields are required'', s)
       \<and> book_appointment pid did date JUndefined s = (Reply 400 ''All fields are required'', s)
       \<and> book_appointment_part_000 JUndefined did date time s = (Reply 400 ''All fields are required'', s)
       \<and> book_appointment_part_000 pid JUndefined date time s = (Reply 400 ''All fields are required'', s)
       \<and> book_appointment_part_000 pid did JUndefined time s = (Reply 400 ''All fields are required'', s)
       \<and> book_appointment_part_000 pid did date JUndefined s = (Reply 400 ''All fields are required'', s)"
  using assms by (auto simp: book_appointment_def book_appointment_part_000_def)

theorem book_appointment_falsy_field_witness:
  "book_appointment (JNum 0) (JNum 1) (JStr ''2025-04-11'') (JStr ''09:00'') empty_db =
     (Reply 400 ''All fields are required'', empty_db)
   \<and> book_appointment_part_000 (JNum 1) (JNum 1) (JStr ''2025-04-11'') (JStr []) empty_db =
     (Reply 400 ''All fields are required'', empty_db)"
  using book_appointment_falsy_field
          [of "JNum 0" "JNum 1" "JStr ''2025-04-11''" "JStr ''09:00''" empty_db]
        book_appointment_falsy_field
          [of "JNum 1" "JNum 1" "JStr ''2025-04-11''" "JStr []" empty_db]
  by simp

end
